theory Spec2Isabelle
  imports Main
begin

section \<open>Errors and JavaScript bigint arithmetic\<close>

text \<open>
  Every \<^verbatim>\<open>throw\<close> of the TypeScript sources is a value of \<open>error\<close>:
  \<^item> \<open>UnknownToken\<close>: \<^verbatim>\<open>new Error('Pool does not contain the tokens provided')\<close>;
  \<^item> \<open>ExceedsPoolLimit\<close>: \<^verbatim>\<open>new Error('Swap amount exceeds the pool limit')\<close>;
  \<^item> \<open>MissingPriceRate\<close>: \<^verbatim>\<open>new Error('Stable pool token does not have a price rate')\<close>;
  \<^item> \<open>InvalidPoolId\<close>: \<^verbatim>\<open>invariant(poolId.length === 66, 'Invalid poolId length')\<close>;
  \<^item> \<open>TypeError\<close>: reading a property of \<^verbatim>\<open>undefined\<close> (an array read out of range);
  \<^item> \<open>RangeError\<close>: bigint division by zero, bigint power with a negative exponent;
  \<^item> \<open>SyntaxError\<close>: a string that does not parse as a number;
  \<^item> \<open>InvalidAmount\<close>, \<open>InsufficientAmount\<close>, \<open>OutOfBounds\<close>,
    \<open>InvariantDidNotConverge\<close>: the failures the specification names for scaled amounts
    and for the pool math.
\<close>

datatype error =
    UnknownToken
  | ExceedsPoolLimit
  | MissingPriceRate
  | InvalidPoolId
  | TypeError
  | RangeError
  | SyntaxError
  | InvalidAmount
  | InsufficientAmount
  | OutOfBounds
  | InvariantDidNotConverge

text \<open>Sequencing of computations that may throw: the first error ends the computation.\<close>

definition bindE :: "error + 'a \<Rightarrow> ('a \<Rightarrow> error + 'b) \<Rightarrow> error + 'b" where
  "bindE m f = (case m of Inl e \<Rightarrow> Inl e | Inr x \<Rightarrow> f x)"

text \<open>Division rounded toward zero (what \<^verbatim>\<open>/\<close> does on bigints) and toward plus infinity.\<close>

definition trunc_div :: "int \<Rightarrow> int \<Rightarrow> int" where
  "trunc_div a b = sgn a * sgn b * (\<bar>a\<bar> div \<bar>b\<bar>)"

definition ceil_div :: "int \<Rightarrow> int \<Rightarrow> int" where
  "ceil_div a b = - ((- a) div b)"

text \<open>\<^verbatim>\<open>a / b\<close> on bigints: a \<^verbatim>\<open>RangeError\<close> when \<open>b\<close> is zero.\<close>

definition bigint_div :: "int \<Rightarrow> int \<Rightarrow> error + int" where
  "bigint_div a b = (if b = 0 then Inl RangeError else Inr (trunc_div a b))"

text \<open>The glossary of the specification: the fixed-point scale is \<open>10^18\<close>.\<close>

definition WAD :: int where
  "WAD = 10 ^ 18"

text \<open>
  Modelled from the spec: the class \<^verbatim>\<open>MathSol\<close> (\<^verbatim>\<open>utils/math\<close>) is not among the
  sources. Section 4.1: "given two WAD-scaled integers, mulUp/mulDown and divUp/divDown
  compute the product/quotient rounded toward plus infinity or toward zero respectively";
  "complement(x) = WAD - x, saturating at zero if x > WAD". A zero divisor raises, as every
  bigint division does.
\<close>

definition MathSol_mulDownFixed :: "int \<Rightarrow> int \<Rightarrow> int" where
  "MathSol_mulDownFixed a b = trunc_div (a * b) WAD"

text \<open>Modelled from the spec: \<^verbatim>\<open>MathSol.mulUpFixed\<close>, the product of section 4.1 rounded toward plus infinity.\<close>

definition MathSol_mulUpFixed :: "int \<Rightarrow> int \<Rightarrow> int" where
  "MathSol_mulUpFixed a b = ceil_div (a * b) WAD"

text \<open>Modelled from the spec: \<^verbatim>\<open>MathSol.divDownFixed\<close>, the quotient of section 4.1 rounded toward zero.\<close>

definition MathSol_divDownFixed :: "int \<Rightarrow> int \<Rightarrow> error + int" where
  "MathSol_divDownFixed a b = (if b = 0 then Inl RangeError else Inr (trunc_div (a * WAD) b))"

text \<open>Modelled from the spec: \<^verbatim>\<open>MathSol.divUpFixed\<close>, the quotient of section 4.1 rounded toward plus infinity.\<close>

definition MathSol_divUpFixed :: "int \<Rightarrow> int \<Rightarrow> error + int" where
  "MathSol_divUpFixed a b = (if b = 0 then Inl RangeError else Inr (ceil_div (a * WAD) b))"

text \<open>Modelled from the spec: \<^verbatim>\<open>MathSol.complementFixed\<close>, the complement of section 4.1.\<close>

definition complementFixed :: "int \<Rightarrow> int" where
  "complementFixed x = (if x < WAD then WAD - x else 0)"

section \<open>Tokens and scaled amounts\<close>

text \<open>
  Modelled from the spec: the class \<^verbatim>\<open>Token\<close> (\<^verbatim>\<open>entities/token\<close>) is not among the
  sources. Section 3: "immutable identity: chain identifier, address, decimal precision,
  optional display metadata. Equality is by (chain, address)." The constructor is called as
  \<^verbatim>\<open>new Token(1, t.address, t.decimals, t.symbol, t.name)\<close>.
\<close>

record token =
  chainId :: int
  address :: string
  decimals :: nat
  symbol :: "string option"
  name :: "string option"

text \<open>Modelled from the spec: the constructor of \<^verbatim>\<open>Token\<close> (section 3).\<close>

definition Token :: "int \<Rightarrow> string \<Rightarrow> nat \<Rightarrow> string option \<Rightarrow> string option \<Rightarrow> token" where
  "Token c a d s n = \<lparr>chainId = c, address = a, decimals = d, symbol = s, name = n\<rparr>"

text \<open>Modelled from the spec: \<^verbatim>\<open>Token.isEqual\<close>, equality by chain and address (section 3).\<close>

definition isEqual :: "token \<Rightarrow> token \<Rightarrow> bool" where
  "isEqual t u \<longleftrightarrow> chainId t = chainId u \<and> address t = address u"

text \<open>
  Modelled from the spec: the class \<^verbatim>\<open>TokenAmount\<close> (\<^verbatim>\<open>entities/tokenAmount\<close>) is not
  among the sources; the pools read its fields \<^verbatim>\<open>token\<close>, \<^verbatim>\<open>amount\<close>, \<^verbatim>\<open>scalar\<close> and
  \<^verbatim>\<open>scale18\<close>. Section 3: a raw integer amount in the token's native decimals with its
  18-decimal normalisation \<open>raw * 10^(18 - decimals)\<close> (times a rate, for the rate-bearing
  subclasses below). Section 4.2: "constructing from a negative raw amount fails with
  InvalidAmount; arithmetic that would underflow (subtracting more than present) fails with
  InsufficientAmount"; \<open>fromNormalized(token, normalizedInteger, roundUp)\<close> converts back to
  raw with an explicit rounding direction; the fixed-point operators delegate to section 4.1
  and return a new value with the matching raw and normalised pair. The raw amount of the
  result is the operator applied to the raw amount: rounding the normalised result to raw in
  the operator's own direction gives the same integer, the scalar being a positive integer.
  A token of more than 18 decimals has no integer scalar: the bigint power raises.
\<close>

record token_amount =
  token :: token
  amount :: int
  scalar :: int
  scale18 :: int

text \<open>Modelled from the spec: the constructor of \<^verbatim>\<open>TokenAmount\<close> (sections 3 and 4.2).\<close>

definition new_TokenAmount :: "token \<Rightarrow> int \<Rightarrow> error + token_amount" where
  "new_TokenAmount t a =
     (if a < 0 then Inl InvalidAmount
      else if 18 < decimals t then Inl RangeError
      else Inr \<lparr>token = t, amount = a, scalar = 10 ^ (18 - decimals t),
                scale18 = a * 10 ^ (18 - decimals t)\<rparr>)"

text \<open>Modelled from the spec: \<^verbatim>\<open>TokenAmount.fromRawAmount\<close>, \<open>fromRaw\<close> of section 4.2.\<close>

definition fromRawAmount :: "token \<Rightarrow> int \<Rightarrow> error + token_amount" where
  "fromRawAmount t raw = new_TokenAmount t raw"

text \<open>Modelled from the spec: \<^verbatim>\<open>TokenAmount.fromScale18Amount\<close>, \<open>fromNormalized\<close> of section 4.2.\<close>

definition fromScale18Amount :: "token \<Rightarrow> int \<Rightarrow> bool \<Rightarrow> error + token_amount" where
  "fromScale18Amount t scale18Amount divUp =
     (if 18 < decimals t then Inl RangeError
      else new_TokenAmount t
             (if divUp then ceil_div scale18Amount (10 ^ (18 - decimals t))
              else trunc_div scale18Amount (10 ^ (18 - decimals t))))"

text \<open>Modelled from the spec: \<^verbatim>\<open>TokenAmount.sub\<close> (section 4.2).\<close>

definition sub :: "token_amount \<Rightarrow> token_amount \<Rightarrow> error + token_amount" where
  "sub x other =
     (if amount x < amount other then Inl InsufficientAmount
      else new_TokenAmount (token x) (amount x - amount other))"

text \<open>Modelled from the spec: \<^verbatim>\<open>TokenAmount.mulUpFixed\<close> (section 4.2).\<close>

definition mulUpFixed :: "token_amount \<Rightarrow> int \<Rightarrow> error + token_amount" where
  "mulUpFixed x other = new_TokenAmount (token x) (MathSol_mulUpFixed (amount x) other)"

text \<open>Modelled from the spec: \<^verbatim>\<open>TokenAmount.mulDownFixed\<close> (section 4.2).\<close>

definition mulDownFixed :: "token_amount \<Rightarrow> int \<Rightarrow> error + token_amount" where
  "mulDownFixed x other = new_TokenAmount (token x) (MathSol_mulDownFixed (amount x) other)"

text \<open>Modelled from the spec: \<^verbatim>\<open>TokenAmount.divUpFixed\<close> (section 4.2).\<close>

definition divUpFixed :: "token_amount \<Rightarrow> int \<Rightarrow> error + token_amount" where
  "divUpFixed x other =
     bindE (MathSol_divUpFixed (amount x) other) (new_TokenAmount (token x))"

text \<open>Modelled from the spec: \<^verbatim>\<open>TokenAmount.divDownFixed\<close> (section 4.2).\<close>

definition divDownFixed :: "token_amount \<Rightarrow> int \<Rightarrow> error + token_amount" where
  "divDownFixed x other =
     bindE (MathSol_divDownFixed (amount x) other) (new_TokenAmount (token x))"

text \<open>
  The subclasses of \<^verbatim>\<open>TokenAmount\<close> that the pools declare, one constructor per class:
  \<^verbatim>\<open>StablePoolToken\<close> and \<^verbatim>\<open>BPT\<close> (stable pool), \<^verbatim>\<open>WrappedToken\<close> and \<^verbatim>\<open>BPT\<close> (linear
  pool; the two \<^verbatim>\<open>BPT\<close> classes have the same fields and differ in the supply constant of
  their constructors). \<open>base\<close> holds the inherited fields; a rate-bearing class overwrites
  the inherited \<^verbatim>\<open>scale18\<close>.
\<close>

datatype pool_token =
    StablePoolToken (base: token_amount) (rate: int)
  | WrappedToken (base: token_amount) (rate: int)
  | BPT (base: token_amount) (rate: int) (virtualBalance: int)

text \<open>
  What the sources import and this development does not have: the constant
  \<^verbatim>\<open>PREMINTED_STABLE_BPT\<close>, \<^verbatim>\<open>unsafeFastParseEther\<close> (a decimal string to an 18-decimal
  integer), the parser of human amounts behind \<^verbatim>\<open>TokenAmount.fromHumanAmount\<close>, and the
  built-in \<^verbatim>\<open>BigInt\<close> on strings. They are parameters of the model.
\<close>

record utils =
  PREMINTED_STABLE_BPT :: int
  unsafeFastParseEther :: "string \<Rightarrow> error + int"
  parseUnits :: "string \<Rightarrow> nat \<Rightarrow> error + int"
  BigInt :: "string \<Rightarrow> error + int"

text \<open>Modelled from the spec: \<^verbatim>\<open>TokenAmount.fromHumanAmount\<close>, \<open>fromHuman\<close> of section 4.2, over the parser \<open>parseUnits\<close> of the parameters.\<close>

definition fromHumanAmount :: "utils \<Rightarrow> token \<Rightarrow> string \<Rightarrow> error + token_amount" where
  "fromHumanAmount U t humanAmount =
     bindE (parseUnits U humanAmount (decimals t)) (new_TokenAmount t)"

text \<open>
  \<^verbatim>\<open>super(token, amount); this.rate = BigInt(rate);
  this.scale18 = (this.amount * this.scalar * this.rate) / WAD;\<close>
\<close>

definition new_StablePoolToken :: "token \<Rightarrow> int \<Rightarrow> int \<Rightarrow> error + pool_token" where
  "new_StablePoolToken t a r =
     bindE (new_TokenAmount t a) (\<lambda>b.
     bindE (bigint_div (amount b * scalar b * r) WAD) (\<lambda>s.
     Inr (StablePoolToken (b\<lparr>scale18 := s\<rparr>) r)))"

text \<open>
  \<^verbatim>\<open>super(token, amount); this.rate = WAD;
  this.virtualBalance = PREMINTED_STABLE_BPT - this.amount;\<close>
\<close>

definition new_BPT :: "utils \<Rightarrow> token \<Rightarrow> int \<Rightarrow> error + pool_token" where
  "new_BPT U t a =
     bindE (new_TokenAmount t a) (\<lambda>b.
     Inr (BPT b WAD (PREMINTED_STABLE_BPT U - amount b)))"

section \<open>Arrays\<close>

text \<open>
  JavaScript arrays are objects: \<^verbatim>\<open>sort\<close> and \<^verbatim>\<open>splice\<close> change the array they are
  called on, and an assignment copies the reference. The store maps a reference to the
  contents of its array, one component per element type; \<open>fresh\<close> is the next unused
  reference.
\<close>

record raw_token =
  r_address :: string
  r_decimals :: nat
  r_symbol :: "string option"
  r_name :: "string option"
  index :: int
  balance :: string
  priceRate :: "string option"

record heap =
  raw_arrays :: "nat \<Rightarrow> raw_token list"
  tok_arrays :: "nat \<Rightarrow> pool_token list"
  int_arrays :: "nat \<Rightarrow> int list"
  fresh :: nat

type_synonym 'a prog = "heap \<Rightarrow> (error + 'a) \<times> heap"

definition returnP :: "'a \<Rightarrow> 'a prog" where
  "returnP x = (\<lambda>h. (Inr x, h))"

definition throwP :: "error \<Rightarrow> 'a prog" where
  "throwP e = (\<lambda>h. (Inl e, h))"

definition liftE :: "error + 'a \<Rightarrow> 'a prog" where
  "liftE r = (\<lambda>h. (r, h))"

definition bindP :: "'a prog \<Rightarrow> ('a \<Rightarrow> 'b prog) \<Rightarrow> 'b prog" where
  "bindP m f = (\<lambda>h. case m h of (Inl e, h') \<Rightarrow> (Inl e, h') | (Inr x, h') \<Rightarrow> f x h')"

definition get_raw_array :: "nat \<Rightarrow> raw_token list prog" where
  "get_raw_array r = (\<lambda>h. (Inr (raw_arrays h r), h))"

definition get_tok_array :: "nat \<Rightarrow> pool_token list prog" where
  "get_tok_array r = (\<lambda>h. (Inr (tok_arrays h r), h))"

definition new_tok_array :: "pool_token list \<Rightarrow> nat prog" where
  "new_tok_array xs =
     (\<lambda>h. (Inr (fresh h), h\<lparr>tok_arrays := (tok_arrays h)(fresh h := xs), fresh := Suc (fresh h)\<rparr>))"

definition new_int_array :: "int list \<Rightarrow> nat prog" where
  "new_int_array xs =
     (\<lambda>h. (Inr (fresh h), h\<lparr>int_arrays := (int_arrays h)(fresh h := xs), fresh := Suc (fresh h)\<rparr>))"

text \<open>\<^verbatim>\<open>[...xs]\<close>: a new array with the elements of \<open>xs\<close>.\<close>

definition copy_tok_array :: "nat \<Rightarrow> nat prog" where
  "copy_tok_array r = (\<lambda>h. new_tok_array (tok_arrays h r) h)"

definition copy_int_array :: "nat \<Rightarrow> nat prog" where
  "copy_int_array r = (\<lambda>h. new_int_array (int_arrays h r) h)"

text \<open>
  \<^verbatim>\<open>pool.tokens.sort((a, b) => a.index - b.index)\<close>: sorts the array in place, stably, and
  returns the same array.
\<close>

definition sort_by_index :: "nat \<Rightarrow> nat prog" where
  "sort_by_index r =
     (\<lambda>h. (Inr r, h\<lparr>raw_arrays := (raw_arrays h)(r := sort_key index (raw_arrays h r))\<rparr>))"

text \<open>\<^verbatim>\<open>xs.findIndex(P)\<close>: the first position where \<open>P\<close> holds, \<open>-1\<close> when there is none.\<close>

fun findIndex :: "('a \<Rightarrow> bool) \<Rightarrow> 'a list \<Rightarrow> int" where
  "findIndex P [] = - 1"
| "findIndex P (x # xs) =
     (if P x then 0 else (let i = findIndex P xs in if i < 0 then - 1 else i + 1))"

text \<open>
  \<^verbatim>\<open>xs.splice(start, 1)\<close> on the contents: a negative \<open>start\<close> counts from the end (and is
  clamped at 0), a \<open>start\<close> beyond the end removes nothing.
\<close>

definition splice1 :: "'a list \<Rightarrow> int \<Rightarrow> 'a list" where
  "splice1 xs start =
     (let len = int (length xs);
          s = (if start < 0 then max (len + start) 0 else min start len)
      in take (nat s) xs @ drop (nat s + 1) xs)"

definition splice_tok_array :: "nat \<Rightarrow> int \<Rightarrow> unit prog" where
  "splice_tok_array r start =
     (\<lambda>h. (Inr (), h\<lparr>tok_arrays := (tok_arrays h)(r := splice1 (tok_arrays h r) start)\<rparr>))"

text \<open>
  \<^verbatim>\<open>xs[i] = v\<close> where \<open>i\<close> comes from \<^verbatim>\<open>findIndex\<close> on an array of the same length: in
  range it replaces the element, at \<open>-1\<close> it sets a property that is no element and the
  contents stay as they are. \<open>i\<close> is never beyond the end (lemma \<open>findIndex_less\<close>).
\<close>

definition set_int_index :: "nat \<Rightarrow> int \<Rightarrow> int \<Rightarrow> unit prog" where
  "set_int_index r i v =
     (\<lambda>h. (Inr (),
        h\<lparr>int_arrays := (int_arrays h)
             (r := (if 0 \<le> i \<and> i < int (length (int_arrays h r))
                    then (int_arrays h r)[nat i := v] else int_arrays h r))\<rparr>))"

text \<open>\<^verbatim>\<open>xs.map(f)\<close> with a callback that may throw: the first throw ends the loop.\<close>

fun mapE :: "('a \<Rightarrow> error + 'b) \<Rightarrow> 'a list \<Rightarrow> error + 'b list" where
  "mapE f [] = Inr []"
| "mapE f (x # xs) = bindE (f x) (\<lambda>y. bindE (mapE f xs) (\<lambda>ys. Inr (y # ys)))"

section \<open>The stable pool\<close>

text \<open>\<^verbatim>\<open>utils/pool.ts\<close>: \<^verbatim>\<open>getPoolAddress\<close>.\<close>

definition getPoolAddress :: "string \<Rightarrow> error + string" where
  "getPoolAddress poolId =
     (if length poolId = 66 then Inr (take 42 poolId) else Inl InvalidPoolId)"

record raw_pool =
  raw_id :: string
  raw_address :: string
  raw_tokens :: nat
  raw_totalShares :: string
  raw_swapFee :: string

record raw_stable_pool = raw_pool +
  raw_amp :: string

record stable_pool =
  sp_id :: string
  sp_address :: string
  amp :: int
  swapFee :: int
  tokens :: nat
  tokensNoBpt :: nat
  totalShares :: int
  bptIndex :: int

text \<open>The constructor of \<^verbatim>\<open>StablePool\<close>; \<open>tokens\<close> is the reference the caller passes.\<close>

definition new_StablePool :: "string \<Rightarrow> int \<Rightarrow> int \<Rightarrow> nat \<Rightarrow> int \<Rightarrow> stable_pool prog" where
  "new_StablePool pid a fee toks shares =
     bindP (liftE (getPoolAddress pid)) (\<lambda>addr.
     bindP (get_tok_array toks) (\<lambda>ts.
     bindP (returnP (findIndex (\<lambda>t. address (token (base t)) = addr) ts)) (\<lambda>bi.
     bindP (copy_tok_array toks) (\<lambda>noBpt.
     bindP (splice_tok_array noBpt bi) (\<lambda>_.
     returnP \<lparr>sp_id = pid, sp_address = addr, amp = a, swapFee = fee, tokens = toks,
              tokensNoBpt = noBpt, totalShares = shares, bptIndex = bi\<rparr>)))))"

text \<open>The callback of \<^verbatim>\<open>orderedTokens.map\<close> in \<^verbatim>\<open>StablePool.fromRawPool\<close>.\<close>

definition stable_poolToken :: "utils \<Rightarrow> string \<Rightarrow> raw_token \<Rightarrow> error + pool_token" where
  "stable_poolToken U poolAddress t =
     (if priceRate t = None \<or> priceRate t = Some [] then Inl MissingPriceRate
      else
        bindE (fromHumanAmount U (Token 1 (r_address t) (r_decimals t) (r_symbol t) (r_name t))
                 (balance t)) (\<lambda>tokenAmount.
        if r_address t = poolAddress
        then new_BPT U (token tokenAmount) (amount tokenAmount)
        else bindE (unsafeFastParseEther U (the (priceRate t))) (\<lambda>r.
             new_StablePoolToken (token tokenAmount) (amount tokenAmount) r)))"

definition StablePool_fromRawPool :: "utils \<Rightarrow> raw_stable_pool \<Rightarrow> stable_pool prog" where
  "StablePool_fromRawPool U pool =
     bindP (sort_by_index (raw_tokens pool)) (\<lambda>orderedTokens.
     bindP (get_raw_array orderedTokens) (\<lambda>ots.
     bindP (liftE (mapE (stable_poolToken U (raw_address pool)) ots)) (\<lambda>pts.
     bindP (new_tok_array pts) (\<lambda>poolTokens.
     bindP (liftE (unsafeFastParseEther U (raw_totalShares pool))) (\<lambda>shares.
     bindP (liftE (BigInt U (raw_amp pool))) (\<lambda>a.
     bindP (liftE (unsafeFastParseEther U (raw_swapFee pool))) (\<lambda>fee.
     new_StablePool (raw_id pool) (a * 1000) fee poolTokens shares)))))))"

text \<open>
  The routines of \<^verbatim>\<open>pools/stable/math\<close> are not among the sources: they are parameters.
  A routine receives the contents of the arrays it is passed and may throw; with its
  result it returns the contents it leaves in those arrays.
\<close>

record stable_math =
  calculateInvariant :: "int \<Rightarrow> int list \<Rightarrow> (error + int) \<times> int list"
  calcOutGivenIn ::
    "int \<Rightarrow> int list \<Rightarrow> int \<Rightarrow> int \<Rightarrow> int \<Rightarrow> int \<Rightarrow> (error + int) \<times> int list"
  calcInGivenOut ::
    "int \<Rightarrow> int list \<Rightarrow> int \<Rightarrow> int \<Rightarrow> int \<Rightarrow> int \<Rightarrow> (error + int) \<times> int list"
  calcBptOutGivenExactTokensIn ::
    "int \<Rightarrow> int list \<Rightarrow> int list \<Rightarrow> int \<Rightarrow> int \<Rightarrow> int \<Rightarrow> (error + int) \<times> int list \<times> int list"
  calcTokenInGivenExactBptOut ::
    "int \<Rightarrow> int list \<Rightarrow> int \<Rightarrow> int \<Rightarrow> int \<Rightarrow> int \<Rightarrow> int \<Rightarrow> (error + int) \<times> int list"
  calcBptInGivenExactTokensOut ::
    "int \<Rightarrow> int list \<Rightarrow> int list \<Rightarrow> int \<Rightarrow> int \<Rightarrow> int \<Rightarrow> (error + int) \<times> int list \<times> int list"
  calcTokenOutGivenExactBptIn ::
    "int \<Rightarrow> int list \<Rightarrow> int \<Rightarrow> int \<Rightarrow> int \<Rightarrow> int \<Rightarrow> int \<Rightarrow> (error + int) \<times> int list"

text \<open>A call of a routine on the array \<open>r\<close> (on the arrays \<open>r\<close> and \<open>r'\<close>).\<close>

definition call_math1 :: "(int list \<Rightarrow> (error + int) \<times> int list) \<Rightarrow> nat \<Rightarrow> int prog" where
  "call_math1 f r =
     (\<lambda>h. case f (int_arrays h r) of
             (res, xs) \<Rightarrow> (res, h\<lparr>int_arrays := (int_arrays h)(r := xs)\<rparr>))"

definition call_math2 ::
  "(int list \<Rightarrow> int list \<Rightarrow> (error + int) \<times> int list \<times> int list) \<Rightarrow> nat \<Rightarrow> nat \<Rightarrow> int prog" where
  "call_math2 f r r' =
     (\<lambda>h. case f (int_arrays h r) (int_arrays h r') of
             (res, xs, ys) \<Rightarrow> (res, h\<lparr>int_arrays := (int_arrays h)(r := xs, r' := ys)\<rparr>))"

definition subtractSwapFeeAmount :: "stable_pool \<Rightarrow> token_amount \<Rightarrow> error + token_amount" where
  "subtractSwapFeeAmount p a = bindE (mulUpFixed a (swapFee p)) (\<lambda>feeAmount. sub a feeAmount)"

definition addSwapFeeAmount :: "stable_pool \<Rightarrow> token_amount \<Rightarrow> error + token_amount" where
  "addSwapFeeAmount p a = divUpFixed a (complementFixed (swapFee p))"

text \<open>\<^verbatim>\<open>this.tokens[this.bptIndex].token\<close>: a \<^verbatim>\<open>TypeError\<close> when the index is \<open>-1\<close>.\<close>

definition token_at :: "pool_token list \<Rightarrow> int \<Rightarrow> error + token" where
  "token_at ts i =
     (if 0 \<le> i \<and> i < int (length ts) then Inr (token (base (ts ! nat i))) else Inl TypeError)"

text \<open>
  \<^verbatim>\<open>StablePool.swapGivenIn\<close>. The reads \<open>ts ! nat tInIndex\<close> and \<open>ts ! nat tOutIndex\<close> come
  after the test that both indices are found, so they are in range.
\<close>

definition StablePool_swapGivenIn ::
  "stable_math \<Rightarrow> stable_pool \<Rightarrow> token \<Rightarrow> token \<Rightarrow> token_amount \<Rightarrow> token_amount prog" where
  "StablePool_swapGivenIn M p tokenIn tokenOut swapAmount =
     bindP (get_tok_array (tokens p)) (\<lambda>ts.
     bindP (returnP (findIndex (\<lambda>t. address (token (base t)) = address tokenIn) ts)) (\<lambda>tInIndex.
     bindP (returnP (findIndex (\<lambda>t. address (token (base t)) = address tokenOut) ts)) (\<lambda>tOutIndex.
     if tInIndex < 0 \<or> tOutIndex < 0 then throwP UnknownToken
     else if amount swapAmount > amount (base (ts ! nat tInIndex)) then throwP ExceedsPoolLimit
     else
     bindP (get_tok_array (tokensNoBpt p)) (\<lambda>nb.
     bindP (returnP (findIndex (\<lambda>t. address (token (base t)) = address tokenIn) nb)) (\<lambda>tInIndexNoBpt.
     bindP (returnP (findIndex (\<lambda>t. address (token (base t)) = address tokenOut) nb)) (\<lambda>tOutIndexNoBpt.
     bindP (liftE (subtractSwapFeeAmount p swapAmount)) (\<lambda>amountInWithFee.
     bindP (liftE (mulDownFixed amountInWithFee (rate (ts ! nat tInIndex)))) (\<lambda>amountInWithRate.
     bindP (new_int_array (map (\<lambda>t. scale18 (base t)) nb)) (\<lambda>balancesNoBpt.
     bindP (call_math1 (calculateInvariant M (amp p)) balancesNoBpt) (\<lambda>invariant.
     bindP (liftE (token_at ts (bptIndex p))) (\<lambda>bpt.
     bindP
       (if isEqual tokenIn bpt then
          bindP (copy_int_array balancesNoBpt) (\<lambda>c.
          call_math1 (\<lambda>b. calcTokenOutGivenExactBptIn M (amp p) b tOutIndexNoBpt
                            (scale18 amountInWithRate) (totalShares p) invariant (swapFee p)) c)
        else if isEqual tokenOut bpt then
          bindP (new_int_array (replicate (length nb) 0)) (\<lambda>amountsIn.
          bindP (set_int_index amountsIn tInIndexNoBpt (scale18 amountInWithRate)) (\<lambda>_.
          bindP (copy_int_array balancesNoBpt) (\<lambda>c.
          call_math2 (\<lambda>b a. calcBptOutGivenExactTokensIn M (amp p) b a (totalShares p)
                              invariant (swapFee p)) c amountsIn)))
        else
          bindP (copy_int_array balancesNoBpt) (\<lambda>c.
          call_math1 (\<lambda>b. calcOutGivenIn M (amp p) b tInIndexNoBpt tOutIndexNoBpt
                            (scale18 amountInWithRate) invariant) c))
       (\<lambda>tokenOutScale18.
     bindP (liftE (fromScale18Amount tokenOut tokenOutScale18 False)) (\<lambda>amountOut.
     liftE (divDownFixed amountOut (rate (ts ! nat tOutIndex))))))))))))))))"

text \<open>\<^verbatim>\<open>StablePool.swapGivenOut\<close>.\<close>

definition StablePool_swapGivenOut ::
  "stable_math \<Rightarrow> stable_pool \<Rightarrow> token \<Rightarrow> token \<Rightarrow> token_amount \<Rightarrow> token_amount prog" where
  "StablePool_swapGivenOut M p tokenIn tokenOut swapAmount =
     bindP (get_tok_array (tokens p)) (\<lambda>ts.
     bindP (returnP (findIndex (\<lambda>t. address (token (base t)) = address tokenIn) ts)) (\<lambda>tInIndex.
     bindP (returnP (findIndex (\<lambda>t. address (token (base t)) = address tokenOut) ts)) (\<lambda>tOutIndex.
     if tInIndex < 0 \<or> tOutIndex < 0 then throwP UnknownToken
     else if amount swapAmount > amount (base (ts ! nat tOutIndex)) then throwP ExceedsPoolLimit
     else
     bindP (get_tok_array (tokensNoBpt p)) (\<lambda>nb.
     bindP (returnP (findIndex (\<lambda>t. address (token (base t)) = address tokenIn) nb)) (\<lambda>tInIndexNoBpt.
     bindP (returnP (findIndex (\<lambda>t. address (token (base t)) = address tokenOut) nb)) (\<lambda>tOutIndexNoBpt.
     bindP (liftE (mulDownFixed swapAmount (rate (ts ! nat tOutIndex)))) (\<lambda>amountOutWithRate.
     bindP (new_int_array (map (\<lambda>t. scale18 (base t)) nb)) (\<lambda>balancesNoBpt.
     bindP (call_math1 (calculateInvariant M (amp p)) balancesNoBpt) (\<lambda>invariant.
     bindP (liftE (token_at ts (bptIndex p))) (\<lambda>bpt.
     bindP
       (if isEqual tokenIn bpt then
          bindP (new_int_array (replicate (length nb) 0)) (\<lambda>amountsOut.
          bindP (set_int_index amountsOut tOutIndexNoBpt (scale18 amountOutWithRate)) (\<lambda>_.
          bindP (copy_int_array balancesNoBpt) (\<lambda>c.
          call_math2 (\<lambda>b a. calcBptInGivenExactTokensOut M (amp p) b a (totalShares p)
                              invariant (swapFee p)) c amountsOut)))
        else if isEqual tokenOut bpt then
          bindP (copy_int_array balancesNoBpt) (\<lambda>c.
          call_math1 (\<lambda>b. calcTokenInGivenExactBptOut M (amp p) b tInIndexNoBpt
                            (scale18 amountOutWithRate) (totalShares p) invariant (swapFee p)) c)
        else
          bindP (copy_int_array balancesNoBpt) (\<lambda>c.
          call_math1 (\<lambda>b. calcInGivenOut M (amp p) b tInIndexNoBpt tOutIndexNoBpt
                            (scale18 amountOutWithRate) invariant) c))
       (\<lambda>tokenInScale18.
     bindP (liftE (fromScale18Amount tokenIn tokenInScale18 True)) (\<lambda>amountIn.
     bindP (liftE (addSwapFeeAmount p amountIn)) (\<lambda>amountInWithFee.
     liftE (divDownFixed amountInWithFee (rate (ts ! nat tInIndex))))))))))))))))"

datatype SwapKind = GivenIn | GivenOut

text \<open>\<^verbatim>\<open>const ALMOST_ONE = unsafeFastParseEther('0.99')\<close>: 0.99 with 18 decimals.\<close>

definition ALMOST_ONE :: int where
  "ALMOST_ONE = 99 * 10 ^ 16"

text \<open>\<^verbatim>\<open>xs.find(P)\<close>: the first element where \<open>P\<close> holds, \<^verbatim>\<open>undefined\<close> when there is none.\<close>

definition find_js :: "('a \<Rightarrow> bool) \<Rightarrow> 'a list \<Rightarrow> 'a option" where
  "find_js P xs = List.find P xs"

text \<open>\<^verbatim>\<open>StablePool.getLimitAmountSwap\<close>.\<close>

definition StablePool_getLimitAmountSwap :: "stable_pool \<Rightarrow> token \<Rightarrow> token \<Rightarrow> SwapKind \<Rightarrow> int prog" where
  "StablePool_getLimitAmountSwap p tokenIn tokenOut swapKind =
     bindP (get_tok_array (tokens p)) (\<lambda>ts.
     case (find_js (\<lambda>t. address (token (base t)) = address tokenIn) ts,
           find_js (\<lambda>t. address (token (base t)) = address tokenOut) ts) of
       (Some tIn, Some tOut) \<Rightarrow>
         (case swapKind of
            GivenIn \<Rightarrow> liftE (bigint_div (amount (base tIn) * ALMOST_ONE) (rate tIn))
          | GivenOut \<Rightarrow> liftE (bigint_div (amount (base tOut) * ALMOST_ONE) (rate tOut)))
     | _ \<Rightarrow> throwP UnknownToken)"

text \<open>\<^verbatim>\<open>StablePool.getNormalizedLiquidity\<close>.\<close>

definition StablePool_getNormalizedLiquidity :: "stable_pool \<Rightarrow> token \<Rightarrow> token \<Rightarrow> int prog" where
  "StablePool_getNormalizedLiquidity p tokenIn tokenOut =
     bindP (get_tok_array (tokens p)) (\<lambda>ts.
     case (find_js (\<lambda>t. address (token (base t)) = address tokenIn) ts,
           find_js (\<lambda>t. address (token (base t)) = address tokenOut) ts) of
       (Some tIn, Some tOut) \<Rightarrow> returnP (amount (base tOut) * amp p)
     | _ \<Rightarrow> throwP UnknownToken)"

section \<open>The linear pool\<close>

text \<open>
  \<^verbatim>\<open>ONE = unsafeFastParseEther('1')\<close>, \<^verbatim>\<open>MAX_RATIO = unsafeFastParseEther('10')\<close>,
  \<^verbatim>\<open>MAX_TOKEN_BALANCE = MAX_UINT112 - 1n\<close>; \<^verbatim>\<open>MAX_UINT112\<close> is imported from
  \<^verbatim>\<open>utils\<close>: the largest unsigned integer of 112 bits.
\<close>

definition ONE :: int where
  "ONE = 10 ^ 18"

definition MAX_RATIO :: int where
  "MAX_RATIO = 10 * 10 ^ 18"

definition MAX_UINT112 :: int where
  "MAX_UINT112 = 2 ^ 112 - 1"

definition MAX_TOKEN_BALANCE :: int where
  "MAX_TOKEN_BALANCE = MAX_UINT112 - 1"

definition new_linear_BPT :: "token \<Rightarrow> int \<Rightarrow> error + pool_token" where
  "new_linear_BPT t a =
     bindE (new_TokenAmount t a) (\<lambda>b.
     Inr (BPT b WAD (MAX_TOKEN_BALANCE - amount b)))"

definition new_WrappedToken :: "token \<Rightarrow> int \<Rightarrow> int \<Rightarrow> error + pool_token" where
  "new_WrappedToken t a r =
     bindE (new_TokenAmount t a) (\<lambda>b.
     bindE (bigint_div (amount b * scalar b * r) WAD) (\<lambda>s.
     Inr (WrappedToken (b\<lparr>scale18 := s\<rparr>) r)))"

record Params =
  fee :: int
  params_rate :: int
  lowerTarget :: int
  upperTarget :: int

record raw_linear_pool = raw_pool +
  raw_poolTypeVersion :: int
  mainIndex :: int
  wrappedIndex :: int
  raw_lowerTarget :: string
  raw_upperTarget :: string

record linear_pool =
  lp_id :: string
  lp_address :: string
  poolTypeVersion :: int
  lp_swapFee :: int
  mainToken :: token_amount
  wrappedToken :: pool_token
  bptToken :: pool_token
  params :: Params

definition new_LinearPool ::
  "string \<Rightarrow> int \<Rightarrow> Params \<Rightarrow> token_amount \<Rightarrow> pool_token \<Rightarrow> pool_token \<Rightarrow> error + linear_pool" where
  "new_LinearPool pid version ps mainT wrappedT bptT =
     bindE (getPoolAddress pid) (\<lambda>addr.
     Inr \<lparr>lp_id = pid, lp_address = addr, poolTypeVersion = version, lp_swapFee = fee ps,
          mainToken = mainT, wrappedToken = wrappedT, bptToken = bptT, params = ps\<rparr>)"

text \<open>
  \<^verbatim>\<open>orderedTokens[i]\<close> followed by a read of a property: out of range the element is
  \<^verbatim>\<open>undefined\<close> and the read is a \<^verbatim>\<open>TypeError\<close>.
\<close>

definition raw_at :: "raw_token list \<Rightarrow> int \<Rightarrow> error + raw_token" where
  "raw_at ts i = (if 0 \<le> i \<and> i < int (length ts) then Inr (ts ! nat i) else Inl TypeError)"

text \<open>\<^verbatim>\<open>wT.priceRate || '1.0'\<close>: the default replaces a missing or empty string.\<close>

definition priceRate_or :: "raw_token \<Rightarrow> string \<Rightarrow> string" where
  "priceRate_or t d = (case priceRate t of None \<Rightarrow> d | Some s \<Rightarrow> (if s = [] then d else s))"

text \<open>\<^verbatim>\<open>LinearPool.fromRawPool\<close>.\<close>

definition LinearPool_fromRawPool :: "utils \<Rightarrow> raw_linear_pool \<Rightarrow> linear_pool prog" where
  "LinearPool_fromRawPool U pool =
     bindP (sort_by_index (raw_tokens pool)) (\<lambda>orderedTokens.
     bindP (get_raw_array orderedTokens) (\<lambda>ots. liftE (
     bindE (unsafeFastParseEther U (raw_swapFee pool)) (\<lambda>swapFee.
     bindE (raw_at ots (mainIndex pool)) (\<lambda>mT.
     bindE (Inr (Token 1 (r_address mT) (r_decimals mT) (r_symbol mT) (r_name mT))) (\<lambda>mToken.
     bindE (fromHumanAmount U mToken (raw_lowerTarget pool)) (\<lambda>lowerT.
     bindE (fromHumanAmount U mToken (raw_upperTarget pool)) (\<lambda>upperT.
     bindE (fromHumanAmount U mToken (balance mT)) (\<lambda>mTokenAmount.
     bindE (raw_at ots (wrappedIndex pool)) (\<lambda>wT.
     bindE (unsafeFastParseEther U (priceRate_or wT ''1.0'')) (\<lambda>wTRate.
     bindE (Inr (Token 1 (r_address wT) (r_decimals wT) (r_symbol wT) (r_name wT))) (\<lambda>wToken.
     bindE (fromHumanAmount U wToken (balance wT)) (\<lambda>wTokenAmount.
     bindE (new_WrappedToken wToken (amount wTokenAmount) wTRate) (\<lambda>wrappedT.
     bindE (raw_at ots (findIndex (\<lambda>t. r_address t = raw_address pool) ots)) (\<lambda>bT.
     bindE (Inr (Token 1 (r_address bT) (r_decimals bT) (r_symbol bT) (r_name bT))) (\<lambda>bToken.
     bindE (fromHumanAmount U bToken (balance bT)) (\<lambda>bTokenAmount.
     bindE (new_linear_BPT bToken (amount bTokenAmount)) (\<lambda>bptT.
     new_LinearPool (raw_id pool) (raw_poolTypeVersion pool)
       \<lparr>fee = swapFee, params_rate = wTRate, lowerTarget = scale18 lowerT,
        upperTarget = scale18 upperT\<rparr>
       mTokenAmount wrappedT bptT))))))))))))))))))"

text \<open>\<^verbatim>\<open>get tokens()\<close>: a new array at every call, read through the inherited fields.\<close>

definition linear_tokens :: "linear_pool \<Rightarrow> token_amount list" where
  "linear_tokens p = [mainToken p, base (wrappedToken p), base (bptToken p)]"

text \<open>
  The routines of \<^verbatim>\<open>pools/linear/math\<close> are not among the sources: they are parameters.
  They receive bigints and the parameter object, and may throw.
\<close>

record linear_math =
  calcWrappedOutPerMainIn :: "int \<Rightarrow> int \<Rightarrow> Params \<Rightarrow> error + int"
  calcBptOutPerMainIn :: "int \<Rightarrow> int \<Rightarrow> int \<Rightarrow> int \<Rightarrow> Params \<Rightarrow> error + int"
  calcMainOutPerWrappedIn :: "int \<Rightarrow> int \<Rightarrow> Params \<Rightarrow> error + int"
  calcBptOutPerWrappedIn :: "int \<Rightarrow> int \<Rightarrow> int \<Rightarrow> int \<Rightarrow> Params \<Rightarrow> error + int"
  calcMainOutPerBptIn :: "int \<Rightarrow> int \<Rightarrow> int \<Rightarrow> int \<Rightarrow> Params \<Rightarrow> error + int"
  calcWrappedOutPerBptIn :: "int \<Rightarrow> int \<Rightarrow> int \<Rightarrow> int \<Rightarrow> Params \<Rightarrow> error + int"
  calcMainInPerWrappedOut :: "int \<Rightarrow> int \<Rightarrow> Params \<Rightarrow> error + int"
  calcMainInPerBptOut :: "int \<Rightarrow> int \<Rightarrow> int \<Rightarrow> int \<Rightarrow> Params \<Rightarrow> error + int"
  calcWrappedInPerMainOut :: "int \<Rightarrow> int \<Rightarrow> Params \<Rightarrow> error + int"
  calcWrappedInPerBptOut :: "int \<Rightarrow> int \<Rightarrow> int \<Rightarrow> int \<Rightarrow> Params \<Rightarrow> error + int"
  calcBptInPerWrappedOut :: "int \<Rightarrow> int \<Rightarrow> int \<Rightarrow> int \<Rightarrow> Params \<Rightarrow> error + int"
  calcBptInPerMainOut :: "int \<Rightarrow> int \<Rightarrow> int \<Rightarrow> int \<Rightarrow> Params \<Rightarrow> error + int"

definition exactMainTokenInForWrappedOut ::
  "linear_math \<Rightarrow> linear_pool \<Rightarrow> token_amount \<Rightarrow> error + token_amount" where
  "exactMainTokenInForWrappedOut L p swapAmount =
     bindE (calcWrappedOutPerMainIn L (scale18 swapAmount) (scale18 (mainToken p)) (params p))
       (\<lambda>tokenOutScale18. fromScale18Amount (token (base (wrappedToken p))) tokenOutScale18 False)"

definition exactMainTokenInForBptOut ::
  "linear_math \<Rightarrow> linear_pool \<Rightarrow> token_amount \<Rightarrow> error + token_amount" where
  "exactMainTokenInForBptOut L p swapAmount =
     bindE (calcBptOutPerMainIn L (scale18 swapAmount) (scale18 (mainToken p))
              (scale18 (base (wrappedToken p))) (virtualBalance (bptToken p)) (params p))
       (\<lambda>tokenOutScale18. fromScale18Amount (token (base (bptToken p))) tokenOutScale18 False)"

definition exactWrappedTokenInForMainOut ::
  "linear_math \<Rightarrow> linear_pool \<Rightarrow> token_amount \<Rightarrow> error + token_amount" where
  "exactWrappedTokenInForMainOut L p swapAmount =
     bindE (calcMainOutPerWrappedIn L (scale18 swapAmount) (scale18 (mainToken p)) (params p))
       (\<lambda>tokenOutScale18. fromScale18Amount (token (mainToken p)) tokenOutScale18 False)"

definition exactWrappedTokenInForBptOut ::
  "linear_math \<Rightarrow> linear_pool \<Rightarrow> token_amount \<Rightarrow> error + token_amount" where
  "exactWrappedTokenInForBptOut L p swapAmount =
     bindE (calcBptOutPerWrappedIn L (scale18 swapAmount) (scale18 (mainToken p))
              (scale18 (base (wrappedToken p))) (virtualBalance (bptToken p)) (params p))
       (\<lambda>tokenOutScale18. fromScale18Amount (token (base (bptToken p))) tokenOutScale18 False)"

definition exactBptInForMainOut ::
  "linear_math \<Rightarrow> linear_pool \<Rightarrow> token_amount \<Rightarrow> error + token_amount" where
  "exactBptInForMainOut L p swapAmount =
     bindE (calcMainOutPerBptIn L (scale18 swapAmount) (scale18 (mainToken p))
              (scale18 (base (wrappedToken p))) (virtualBalance (bptToken p)) (params p))
       (\<lambda>tokenOutScale18. fromScale18Amount (token (mainToken p)) tokenOutScale18 False)"

definition exactBptInForWrappedOut ::
  "linear_math \<Rightarrow> linear_pool \<Rightarrow> token_amount \<Rightarrow> error + token_amount" where
  "exactBptInForWrappedOut L p swapAmount =
     bindE (calcWrappedOutPerBptIn L (scale18 swapAmount) (scale18 (mainToken p))
              (scale18 (base (wrappedToken p))) (virtualBalance (bptToken p)) (params p))
       (\<lambda>tokenOutScale18. fromScale18Amount (token (base (wrappedToken p))) tokenOutScale18 False)"

definition mainTokenInForExactWrappedOut ::
  "linear_math \<Rightarrow> linear_pool \<Rightarrow> token_amount \<Rightarrow> error + token_amount" where
  "mainTokenInForExactWrappedOut L p swapAmount =
     bindE (calcMainInPerWrappedOut L (scale18 swapAmount) (scale18 (mainToken p)) (params p))
       (\<lambda>tokenOutScale18. fromScale18Amount (token (mainToken p)) tokenOutScale18 True)"

definition mainTokenInForExactBptOut ::
  "linear_math \<Rightarrow> linear_pool \<Rightarrow> token_amount \<Rightarrow> error + token_amount" where
  "mainTokenInForExactBptOut L p swapAmount =
     bindE (calcMainInPerBptOut L (scale18 swapAmount) (scale18 (mainToken p))
              (scale18 (base (wrappedToken p))) (virtualBalance (bptToken p)) (params p))
       (\<lambda>tokenOutScale18. fromScale18Amount (token (mainToken p)) tokenOutScale18 True)"

definition wrappedTokenInForExactMainOut ::
  "linear_math \<Rightarrow> linear_pool \<Rightarrow> token_amount \<Rightarrow> error + token_amount" where
  "wrappedTokenInForExactMainOut L p swapAmount =
     bindE (calcWrappedInPerMainOut L (scale18 swapAmount) (scale18 (mainToken p)) (params p))
       (\<lambda>tokenOutScale18. fromScale18Amount (token (base (wrappedToken p))) tokenOutScale18 True)"

definition wrappedTokenInForExactBptOut ::
  "linear_math \<Rightarrow> linear_pool \<Rightarrow> token_amount \<Rightarrow> error + token_amount" where
  "wrappedTokenInForExactBptOut L p swapAmount =
     bindE (calcWrappedInPerBptOut L (scale18 swapAmount) (scale18 (mainToken p))
              (scale18 (base (wrappedToken p))) (virtualBalance (bptToken p)) (params p))
       (\<lambda>tokenOutScale18. fromScale18Amount (token (base (wrappedToken p))) tokenOutScale18 True)"

definition bptInForExactMainOut ::
  "linear_math \<Rightarrow> linear_pool \<Rightarrow> token_amount \<Rightarrow> error + token_amount" where
  "bptInForExactMainOut L p swapAmount =
     bindE (calcBptInPerMainOut L (scale18 swapAmount) (scale18 (mainToken p))
              (scale18 (base (wrappedToken p))) (virtualBalance (bptToken p)) (params p))
       (\<lambda>tokenOutScale18. fromScale18Amount (token (base (bptToken p))) tokenOutScale18 True)"

definition bptInForExactWrappedOut ::
  "linear_math \<Rightarrow> linear_pool \<Rightarrow> token_amount \<Rightarrow> error + token_amount" where
  "bptInForExactWrappedOut L p swapAmount =
     bindE (calcBptInPerWrappedOut L (scale18 swapAmount) (scale18 (mainToken p))
              (scale18 (base (wrappedToken p))) (virtualBalance (bptToken p)) (params p))
       (\<lambda>tokenOutScale18. fromScale18Amount (token (base (bptToken p))) tokenOutScale18 True)"

text \<open>\<^verbatim>\<open>this.tokens[tOutIndex].amount\<close>: a \<^verbatim>\<open>TypeError\<close> when the index is \<open>-1\<close>.\<close>

definition amount_at :: "token_amount list \<Rightarrow> int \<Rightarrow> error + int" where
  "amount_at ts i =
     (if 0 \<le> i \<and> i < int (length ts) then Inr (amount (ts ! nat i)) else Inl TypeError)"

text \<open>\<^verbatim>\<open>LinearPool.swapGivenIn\<close>.\<close>

definition LinearPool_swapGivenIn ::
  "linear_math \<Rightarrow> linear_pool \<Rightarrow> token \<Rightarrow> token \<Rightarrow> token_amount \<Rightarrow> error + token_amount" where
  "LinearPool_swapGivenIn L p tokenIn tokenOut swapAmount =
     bindE (Inr (findIndex (\<lambda>t. address (token t) = address tokenOut) (linear_tokens p)))
       (\<lambda>tOutIndex.
     bindE
       (if isEqual tokenIn (token (mainToken p)) then
          (if isEqual tokenOut (token (base (wrappedToken p)))
           then exactMainTokenInForWrappedOut L p swapAmount
           else exactMainTokenInForBptOut L p swapAmount)
        else if isEqual tokenIn (token (base (wrappedToken p))) then
          (if isEqual tokenOut (token (mainToken p))
           then exactWrappedTokenInForMainOut L p swapAmount
           else exactWrappedTokenInForBptOut L p swapAmount)
        else if isEqual tokenIn (token (base (bptToken p))) then
          (if isEqual tokenOut (token (mainToken p))
           then exactBptInForMainOut L p swapAmount
           else exactBptInForWrappedOut L p swapAmount)
        else Inl UnknownToken)
       (\<lambda>output.
     bindE (amount_at (linear_tokens p) tOutIndex) (\<lambda>held.
     if amount output > held then Inl ExceedsPoolLimit else Inr output)))"

text \<open>\<^verbatim>\<open>LinearPool.swapGivenOut\<close>.\<close>

definition LinearPool_swapGivenOut ::
  "linear_math \<Rightarrow> linear_pool \<Rightarrow> token \<Rightarrow> token \<Rightarrow> token_amount \<Rightarrow> error + token_amount" where
  "LinearPool_swapGivenOut L p tokenIn tokenOut swapAmount =
     bindE (Inr (findIndex (\<lambda>t. address (token t) = address tokenOut) (linear_tokens p)))
       (\<lambda>tOutIndex.
     bindE (amount_at (linear_tokens p) tOutIndex) (\<lambda>held.
     if amount swapAmount > held then Inl ExceedsPoolLimit
     else if isEqual tokenIn (token (mainToken p)) then
       (if isEqual tokenOut (token (base (wrappedToken p)))
        then mainTokenInForExactWrappedOut L p swapAmount
        else mainTokenInForExactBptOut L p swapAmount)
     else if isEqual tokenIn (token (base (wrappedToken p))) then
       (if isEqual tokenOut (token (mainToken p))
        then wrappedTokenInForExactMainOut L p swapAmount
        else wrappedTokenInForExactBptOut L p swapAmount)
     else if isEqual tokenIn (token (base (bptToken p))) then
       (if isEqual tokenOut (token (mainToken p))
        then bptInForExactMainOut L p swapAmount
        else bptInForExactWrappedOut L p swapAmount)
     else Inl UnknownToken))"

text \<open>\<^verbatim>\<open>LinearPool.getLimitAmountSwap\<close>.\<close>

definition LinearPool_getLimitAmountSwap ::
  "linear_math \<Rightarrow> linear_pool \<Rightarrow> token \<Rightarrow> token \<Rightarrow> SwapKind \<Rightarrow> error + int" where
  "LinearPool_getLimitAmountSwap L p tokenIn tokenOut swapKind =
     (case (find_js (\<lambda>t. address (token t) = address tokenIn) (linear_tokens p),
            find_js (\<lambda>t. address (token t) = address tokenOut) (linear_tokens p)) of
        (Some tIn, Some tOut) \<Rightarrow>
          (case swapKind of
             GivenIn \<Rightarrow>
               (if isEqual tokenOut (token (base (bptToken p))) then Inr MAX_TOKEN_BALANCE
                else
                  bindE (bigint_div (amount tOut * ALMOST_ONE) ONE) (\<lambda>q.
                  bindE (fromRawAmount tokenOut q) (\<lambda>a.
                  bindE (LinearPool_swapGivenOut L p tokenIn tokenOut a) (\<lambda>r.
                  Inr (amount r)))))
           | GivenOut \<Rightarrow>
               (if isEqual tokenOut (token (base (bptToken p)))
                then bigint_div (amount tOut * MAX_RATIO) ONE
                else bigint_div (amount tOut * ALMOST_ONE) ONE))
      | _ \<Rightarrow> Inl UnknownToken)"

text \<open>\<^verbatim>\<open>LinearPool.getNormalizedLiquidity\<close>.\<close>

definition LinearPool_getNormalizedLiquidity ::
  "linear_pool \<Rightarrow> token \<Rightarrow> token \<Rightarrow> error + int" where
  "LinearPool_getNormalizedLiquidity p tokenIn tokenOut =
     (case (find_js (\<lambda>t. address (token t) = address tokenIn) (linear_tokens p),
            find_js (\<lambda>t. address (token t) = address tokenOut) (linear_tokens p)) of
        (Some tIn, Some tOut) \<Rightarrow> Inr (amount tOut)
      | _ \<Rightarrow> Inl UnknownToken)"

section \<open>The invariant solver\<close>

text \<open>
  Modelled from the spec: the routine \<^verbatim>\<open>_calculateInvariant\<close> of \<^verbatim>\<open>pools/stable/math\<close> is
  not among the sources. Section 4.5: "Initialize D0 as the sum of balances. Iterate
  D(n+1) = D(n) - f(D(n))/f'(D(n)) [...]; terminate when |D(n+1) - D(n)| <= 1 (integer-unit
  convergence) or after a fixed maximum iteration count, whichever comes first; if the
  maximum iteration count is reached without convergence this is a fatal condition
  (InvariantDidNotConverge)". Section 9: "a plain bounded loop returning a result type that
  is either the converged value or an explicit non-convergence error". The specification
  gives neither \<open>f\<close> nor the count: the Newton update \<open>step\<close> (from the amplification
  coefficient and the balances) and the budget \<open>maxIter\<close> are parameters.
\<close>

text \<open>Modelled from the spec: the bounded iteration of section 4.5.\<close>

fun newton_loop :: "(int \<Rightarrow> int) \<Rightarrow> nat \<Rightarrow> int \<Rightarrow> error + int" where
  "newton_loop step 0 D = Inl InvariantDidNotConverge"
| "newton_loop step (Suc n) D =
     (let D' = step D in if \<bar>D' - D\<bar> \<le> 1 then Inr D' else newton_loop step n D')"

text \<open>Modelled from the spec: \<^verbatim>\<open>_calculateInvariant\<close>, the loop above started at the sum of the balances (section 4.5); it leaves the array of balances as it is.\<close>

definition spec_calculateInvariant ::
  "(int \<Rightarrow> int list \<Rightarrow> int \<Rightarrow> int) \<Rightarrow> nat \<Rightarrow> int \<Rightarrow> int list \<Rightarrow> (error + int) \<times> int list" where
  "spec_calculateInvariant step maxIter a balances =
     (newton_loop (step a balances) maxIter (sum_list balances), balances)"

section \<open>Membership and sequences of calls\<close>

text \<open>A token is a member of a pool when the pool's token list has an entry of its address.\<close>

definition stable_member :: "heap \<Rightarrow> stable_pool \<Rightarrow> token \<Rightarrow> bool" where
  "stable_member h p t \<longleftrightarrow>
     (\<exists>x \<in> set (tok_arrays h (tokens p)). address (token (base x)) = address t)"

definition linear_member :: "linear_pool \<Rightarrow> token \<Rightarrow> bool" where
  "linear_member p t \<longleftrightarrow> (\<exists>x \<in> set (linear_tokens p). address (token x) = address t)"

text \<open>
  The calls a holder of a stable pool can make, and the store after a sequence of them,
  whatever each call returns or throws.
\<close>

datatype query =
    SwapGivenIn token token token_amount
  | SwapGivenOut token token token_amount
  | LimitAmountSwap token token SwapKind
  | NormalizedLiquidity token token

fun run_query :: "stable_math \<Rightarrow> stable_pool \<Rightarrow> query \<Rightarrow> heap \<Rightarrow> heap" where
  "run_query M p (SwapGivenIn tokenIn tokenOut a) h =
     snd (StablePool_swapGivenIn M p tokenIn tokenOut a h)"
| "run_query M p (SwapGivenOut tokenIn tokenOut a) h =
     snd (StablePool_swapGivenOut M p tokenIn tokenOut a h)"
| "run_query M p (LimitAmountSwap tokenIn tokenOut k) h =
     snd (StablePool_getLimitAmountSwap p tokenIn tokenOut k h)"
| "run_query M p (NormalizedLiquidity tokenIn tokenOut) h =
     snd (StablePool_getNormalizedLiquidity p tokenIn tokenOut h)"

fun run_queries :: "stable_math \<Rightarrow> stable_pool \<Rightarrow> query list \<Rightarrow> heap \<Rightarrow> heap" where
  "run_queries M p [] h = h"
| "run_queries M p (q # qs) h = run_queries M p qs (run_query M p q h)"

section \<open>Example pools\<close>

text \<open>
  An instance of the parameters, for the examples: decimal strings without sign or
  exponent, digits beyond the precision dropped.
\<close>

definition digit_val :: "char \<Rightarrow> nat option" where
  "digit_val c =
     (let n = (of_char c :: nat) in if 48 \<le> n \<and> n \<le> 57 then Some (n - 48) else None)"

fun digits_val :: "string \<Rightarrow> nat \<Rightarrow> nat option" where
  "digits_val [] acc = Some acc"
| "digits_val (c # cs) acc =
     (case digit_val c of None \<Rightarrow> None | Some d \<Rightarrow> digits_val cs (10 * acc + d))"

definition parse_decimal :: "string \<Rightarrow> nat \<Rightarrow> error + int" where
  "parse_decimal s d =
     (let ip = takeWhile (\<lambda>c. c \<noteq> CHR ''.'') s;
          fp = take d (drop (length ip + 1) s)
      in if ip = [] then Inl SyntaxError
         else case (digits_val ip 0, digits_val fp 0) of
                (Some n, Some f) \<Rightarrow> Inr (int n * 10 ^ d + int f * 10 ^ (d - length fp))
              | _ \<Rightarrow> Inl SyntaxError)"

definition ex_utils :: utils where
  "ex_utils = \<lparr>PREMINTED_STABLE_BPT = 2 ^ 111,
               unsafeFastParseEther = (\<lambda>s. parse_decimal s 18),
               parseUnits = parse_decimal,
               BigInt = (\<lambda>s. if CHR ''.'' \<in> set s then Inl SyntaxError
                              else parse_decimal s 0)\<rparr>"

text \<open>
  A stand-in for the stable math, for the examples: one normalised unit for one normalised
  unit, the invariant the sum of the balances, no array changed.
\<close>

definition ex_math :: stable_math where
  "ex_math = \<lparr>calculateInvariant = (\<lambda>a b. (Inr (sum_list b), b)),
              calcOutGivenIn = (\<lambda>a b i j x d. (Inr x, b)),
              calcInGivenOut = (\<lambda>a b i j x d. (Inr x, b)),
              calcBptOutGivenExactTokensIn = (\<lambda>a b xs t d f. (Inr (sum_list xs), b, xs)),
              calcTokenInGivenExactBptOut = (\<lambda>a b i x t d f. (Inr x, b)),
              calcBptInGivenExactTokensOut = (\<lambda>a b xs t d f. (Inr (sum_list xs), b, xs)),
              calcTokenOutGivenExactBptIn = (\<lambda>a b i x t d f. (Inr x, b))\<rparr>"

text \<open>The same, with an invariant routine that never converges.\<close>

definition ex_math_diverging :: stable_math where
  "ex_math_diverging =
     ex_math\<lparr>calculateInvariant := spec_calculateInvariant (\<lambda>a b D. D + 2) 255\<rparr>"

text \<open>A stable pool of the tokens A and B and its own liquidity token.\<close>

definition ex_id :: string where
  "ex_id = ''0x5c6ee304399dbdb9c8ef030ab642b10820db8f56000200000000000000000014''"

definition ex_address :: string where
  "ex_address = ''0x5c6ee304399dbdb9c8ef030ab642b10820db8f56''"

definition ex_rawA :: raw_token where
  "ex_rawA = \<lparr>r_address = ''0xA'', r_decimals = 18, r_symbol = Some ''A'', r_name = None,
              index = 1, balance = ''1000'', priceRate = Some ''3.0''\<rparr>"

definition ex_rawB :: raw_token where
  "ex_rawB = \<lparr>r_address = ''0xB'', r_decimals = 18, r_symbol = Some ''B'', r_name = None,
              index = 2, balance = ''5000'', priceRate = Some ''2.0''\<rparr>"

definition ex_rawBpt :: raw_token where
  "ex_rawBpt = \<lparr>r_address = ex_address, r_decimals = 18, r_symbol = Some ''BPT'',
                r_name = None, index = 0, balance = ''2596148429267000'',
                priceRate = Some ''1.0''\<rparr>"

definition ex_heap0 :: heap where
  "ex_heap0 = \<lparr>raw_arrays = (\<lambda>_. [])(0 := [ex_rawB, ex_rawBpt, ex_rawA]),
               tok_arrays = (\<lambda>_. []), int_arrays = (\<lambda>_. []), fresh = 1\<rparr>"

definition ex_raw :: raw_stable_pool where
  "ex_raw = \<lparr>raw_id = ex_id, raw_address = ex_address, raw_tokens = 0,
             raw_totalShares = ''1500'', raw_swapFee = ''0.0004'', raw_amp = ''1000''\<rparr>"

definition ex_tokenA :: token where
  "ex_tokenA = Token 1 ''0xA'' 18 (Some ''A'') None"

definition ex_tokenB :: token where
  "ex_tokenB = Token 1 ''0xB'' 18 (Some ''B'') None"

definition ex_tokenC :: token where
  "ex_tokenC = Token 1 ''0xC'' 18 (Some ''C'') None"

definition ex_tokenBpt :: token where
  "ex_tokenBpt = Token 1 ex_address 18 (Some ''BPT'') None"

definition ex_poolTokens :: "pool_token list" where
  "ex_poolTokens =
     [BPT \<lparr>token = ex_tokenBpt, amount = 2596148429267000 * 10 ^ 18, scalar = 1,
           scale18 = 2596148429267000 * 10 ^ 18\<rparr> WAD 413814265248164610048,
      StablePoolToken \<lparr>token = ex_tokenA, amount = 1000 * 10 ^ 18, scalar = 1,
                       scale18 = 3000 * 10 ^ 18\<rparr> (3 * 10 ^ 18),
      StablePoolToken \<lparr>token = ex_tokenB, amount = 5000 * 10 ^ 18, scalar = 1,
                       scale18 = 10000 * 10 ^ 18\<rparr> (2 * 10 ^ 18)]"

definition ex_pool :: stable_pool where
  "ex_pool = \<lparr>sp_id = ex_id, sp_address = ex_address, amp = 1000000, swapFee = 4 * 10 ^ 14,
              tokens = 1, tokensNoBpt = 2, totalShares = 1500 * 10 ^ 18, bptIndex = 0\<rparr>"

definition ex_heap1 :: heap where
  "ex_heap1 = \<lparr>raw_arrays = (\<lambda>_. [])(0 := [ex_rawBpt, ex_rawA, ex_rawB]),
               tok_arrays = (\<lambda>_. [])(1 := ex_poolTokens, 2 := tl ex_poolTokens),
               int_arrays = (\<lambda>_. []), fresh = 3\<rparr>"

text \<open>An amount of a token of 18 decimals.\<close>

definition ex_amount :: "token \<Rightarrow> int \<Rightarrow> token_amount" where
  "ex_amount t n = \<lparr>token = t, amount = n, scalar = 1, scale18 = n\<rparr>"

text \<open>
  A linear pool whose main token has a larger index than its wrapped token, and a stand-in
  for the linear math: one normalised unit for one normalised unit.
\<close>

definition ex_rawM :: raw_token where
  "ex_rawM = \<lparr>r_address = ''0xM'', r_decimals = 18, r_symbol = Some ''M'', r_name = None,
              index = 1, balance = ''150'', priceRate = None\<rparr>"

definition ex_rawW :: raw_token where
  "ex_rawW = \<lparr>r_address = ''0xW'', r_decimals = 18, r_symbol = Some ''W'', r_name = None,
              index = 0, balance = ''50'', priceRate = Some ''1.05''\<rparr>"

definition ex_rawLBpt :: raw_token where
  "ex_rawLBpt = \<lparr>r_address = ex_address, r_decimals = 18, r_symbol = Some ''BPT'',
                 r_name = None, index = 2, balance = ''5192296858534000'',
                 priceRate = None\<rparr>"

definition ex_heapL :: heap where
  "ex_heapL = \<lparr>raw_arrays = (\<lambda>_. [])(0 := [ex_rawW, ex_rawM, ex_rawLBpt]),
               tok_arrays = (\<lambda>_. []), int_arrays = (\<lambda>_. []), fresh = 1\<rparr>"

definition ex_rawL :: raw_linear_pool where
  "ex_rawL = \<lparr>raw_id = ex_id, raw_address = ex_address, raw_tokens = 0,
              raw_totalShares = ''200'', raw_swapFee = ''0.0001'', raw_poolTypeVersion = 1,
              mainIndex = 1, wrappedIndex = 0, raw_lowerTarget = ''100'',
              raw_upperTarget = ''200''\<rparr>"

definition ex_tokenM :: token where
  "ex_tokenM = Token 1 ''0xM'' 18 (Some ''M'') None"

definition ex_tokenW :: token where
  "ex_tokenW = Token 1 ''0xW'' 18 (Some ''W'') None"

definition ex_lpool :: linear_pool where
  "ex_lpool =
     \<lparr>lp_id = ex_id, lp_address = ex_address, poolTypeVersion = 1, lp_swapFee = 10 ^ 14,
      mainToken = ex_amount ex_tokenM (150 * 10 ^ 18),
      wrappedToken = WrappedToken \<lparr>token = ex_tokenW, amount = 50 * 10 ^ 18, scalar = 1,
                                   scale18 = 525 * 10 ^ 17\<rparr> (105 * 10 ^ 16),
      bptToken = BPT (ex_amount ex_tokenBpt (5192296858534000 * 10 ^ 18)) WAD
                   827628530496329220094,
      params = \<lparr>fee = 10 ^ 14, params_rate = 105 * 10 ^ 16, lowerTarget = 100 * 10 ^ 18,
                upperTarget = 200 * 10 ^ 18\<rparr>\<rparr>"

definition ex_lmath :: linear_math where
  "ex_lmath = \<lparr>calcWrappedOutPerMainIn = (\<lambda>x m ps. Inr x),
               calcBptOutPerMainIn = (\<lambda>x m w v ps. Inr x),
               calcMainOutPerWrappedIn = (\<lambda>x m ps. Inr x),
               calcBptOutPerWrappedIn = (\<lambda>x m w v ps. Inr x),
               calcMainOutPerBptIn = (\<lambda>x m w v ps. Inr x),
               calcWrappedOutPerBptIn = (\<lambda>x m w v ps. Inr x),
               calcMainInPerWrappedOut = (\<lambda>x m ps. Inr x),
               calcMainInPerBptOut = (\<lambda>x m w v ps. Inr x),
               calcWrappedInPerMainOut = (\<lambda>x m ps. Inr x),
               calcWrappedInPerBptOut = (\<lambda>x m w v ps. Inr x),
               calcBptInPerWrappedOut = (\<lambda>x m w v ps. Inr x),
               calcBptInPerMainOut = (\<lambda>x m w v ps. Inr x)\<rparr>"

section \<open>Balances held\<close>

text \<open>
  What a pool holds of a token: the \<^verbatim>\<open>amount\<close> of the first entry of its token list with the
  token's address (the entry the swaps read through \<^verbatim>\<open>findIndex\<close>). For the liquidity
  token this is its balance, not its virtual balance.
\<close>

definition stable_held :: "heap \<Rightarrow> stable_pool \<Rightarrow> token \<Rightarrow> int" where
  "stable_held h p t =
     amount (base (tok_arrays h (tokens p) !
       nat (findIndex (\<lambda>x. address (token (base x)) = address t) (tok_arrays h (tokens p)))))"

definition linear_held :: "linear_pool \<Rightarrow> token \<Rightarrow> int" where
  "linear_held p t =
     amount (linear_tokens p !
       nat (findIndex (\<lambda>x. address (token x) = address t) (linear_tokens p)))"

text \<open>The entry of a member token: \<^verbatim>\<open>this.tokens[tInIndex]\<close>.\<close>

definition stable_entry :: "heap \<Rightarrow> stable_pool \<Rightarrow> token \<Rightarrow> pool_token" where
  "stable_entry h p t =
     tok_arrays h (tokens p) !
       nat (findIndex (\<lambda>x. address (token (base x)) = address t) (tok_arrays h (tokens p)))"

text \<open>\<open>x\<close> is what one of the three given-out routines of the stable math returned.\<close>

definition math_in_result :: "stable_math \<Rightarrow> int \<Rightarrow> bool" where
  "math_in_result M x \<longleftrightarrow>
     (\<exists>a b i j y d. fst (calcInGivenOut M a b i j y d) = Inr x) \<or>
     (\<exists>a b i y t d f. fst (calcTokenInGivenExactBptOut M a b i y t d f) = Inr x) \<or>
     (\<exists>a b ys t d f. fst (calcBptInGivenExactTokensOut M a b ys t d f) = Inr x)"

section \<open>Convergence and the guards before the invariant\<close>

text \<open>Successive iterates \<open>k\<close> and \<open>k + 1\<close> of \<open>f\<close> from \<open>D\<close> differ by at most one unit.\<close>

definition converged_at :: "(int \<Rightarrow> int) \<Rightarrow> int \<Rightarrow> nat \<Rightarrow> bool" where
  "converged_at f D k \<longleftrightarrow> \<bar>(f ^^ Suc k) D - (f ^^ k) D\<bar> \<le> 1"

text \<open>\<^verbatim>\<open>this.tokensNoBpt.map(t => t.scale18)\<close>: the balances the swaps pass to the math.\<close>

definition stable_balances :: "heap \<Rightarrow> stable_pool \<Rightarrow> int list" where
  "stable_balances h p = map (\<lambda>t. scale18 (base t)) (tok_arrays h (tokensNoBpt p))"

text \<open>
  What a stable swap does before it computes the invariant: the membership test, the limit
  guard and the arithmetic on the given amount all pass.
\<close>

definition guards_in :: "heap \<Rightarrow> stable_pool \<Rightarrow> token \<Rightarrow> token \<Rightarrow> token_amount \<Rightarrow> bool" where
  "guards_in h p tokenIn tokenOut a \<longleftrightarrow>
     stable_member h p tokenIn \<and> stable_member h p tokenOut \<and>
     amount a \<le> stable_held h p tokenIn \<and>
     (\<exists>b c. subtractSwapFeeAmount p a = Inr b \<and>
            mulDownFixed b (rate (stable_entry h p tokenIn)) = Inr c)"

definition guards_out :: "heap \<Rightarrow> stable_pool \<Rightarrow> token \<Rightarrow> token \<Rightarrow> token_amount \<Rightarrow> bool" where
  "guards_out h p tokenIn tokenOut a \<longleftrightarrow>
     stable_member h p tokenIn \<and> stable_member h p tokenOut \<and>
     amount a \<le> stable_held h p tokenOut \<and>
     (\<exists>c. mulDownFixed a (rate (stable_entry h p tokenOut)) = Inr c)"

text \<open>The stand-in for the stable math with an invariant loop that converges at once.\<close>

definition ex_math_converging :: stable_math where
  "ex_math_converging =
     ex_math\<lparr>calculateInvariant := spec_calculateInvariant (\<lambda>a b D. D) 255\<rparr>"

section \<open>The record after sorting\<close>

text \<open>The entries of the array \<open>r\<close> of a raw pool record in ascending order of \<open>index\<close>.\<close>

definition sorted_raw :: "heap \<Rightarrow> nat \<Rightarrow> raw_token list" where
  "sorted_raw h r = sort_key index (raw_arrays h r)"

text \<open>The example record with no price rate on the pool's own liquidity token.\<close>

definition ex_heap_norate :: heap where
  "ex_heap_norate =
     \<lparr>raw_arrays = (\<lambda>_. [])(0 := [ex_rawB, ex_rawBpt\<lparr>priceRate := None\<rparr>, ex_rawA]),
      tok_arrays = (\<lambda>_. []), int_arrays = (\<lambda>_. []), fresh = 1\<rparr>"

section \<open>More examples: a math that writes to its arrays\<close>

text \<open>
  A stand-in for the stable math that overwrites with zeros every array it is passed, the
  store before the constructor of the example pool runs, the store of the example pool with
  an array of integers that belongs to the caller, and a sequence of calls.
\<close>

definition ex_math_scribbling :: stable_math where
  "ex_math_scribbling =
     \<lparr>calculateInvariant = (\<lambda>a b. (Inr (sum_list b), map (\<lambda>_. 0) b)),
      calcOutGivenIn = (\<lambda>a b i j x d. (Inr x, map (\<lambda>_. 0) b)),
      calcInGivenOut = (\<lambda>a b i j x d. (Inr x, map (\<lambda>_. 0) b)),
      calcBptOutGivenExactTokensIn =
        (\<lambda>a b xs t d f. (Inr (sum_list xs), map (\<lambda>_. 0) b, map (\<lambda>_. 0) xs)),
      calcTokenInGivenExactBptOut = (\<lambda>a b i x t d f. (Inr x, map (\<lambda>_. 0) b)),
      calcBptInGivenExactTokensOut =
        (\<lambda>a b xs t d f. (Inr (sum_list xs), map (\<lambda>_. 0) b, map (\<lambda>_. 0) xs)),
      calcTokenOutGivenExactBptIn = (\<lambda>a b i x t d f. (Inr x, map (\<lambda>_. 0) b))\<rparr>"

definition ex_heap_mid :: heap where
  "ex_heap_mid = \<lparr>raw_arrays = (\<lambda>_. [])(0 := [ex_rawBpt, ex_rawA, ex_rawB]),
                  tok_arrays = (\<lambda>_. [])(1 := ex_poolTokens),
                  int_arrays = (\<lambda>_. []), fresh = 2\<rparr>"

text \<open>The store of the example pool, the pool holding one unit of its own liquidity token.\<close>

definition ex_heap_low_bpt :: heap where
  "ex_heap_low_bpt =
     ex_heap1\<lparr>tok_arrays := (tok_arrays ex_heap1)
       (1 := BPT (ex_amount ex_tokenBpt (10 ^ 18)) WAD (2 ^ 111 - 10 ^ 18) # tl ex_poolTokens)\<rparr>"

definition ex_heap2 :: heap where
  "ex_heap2 = ex_heap1\<lparr>int_arrays := (\<lambda>_. [])(3 := [1, 2, 3]), fresh := 4\<rparr>"

definition ex_queries :: "query list" where
  "ex_queries =
     [SwapGivenIn ex_tokenA ex_tokenB (ex_amount ex_tokenA (10 * 10 ^ 18)),
      LimitAmountSwap ex_tokenA ex_tokenB GivenIn,
      SwapGivenOut ex_tokenBpt ex_tokenB (ex_amount ex_tokenB 2),
      NormalizedLiquidity ex_tokenA ex_tokenC]"

section \<open>Token identity\<close>

text \<open>
  The token set of a pool as the spec speaks of it (section 3: a token is identified by its
  chain and its address): a token is in the set when the pool's token list has an entry
  that \<^verbatim>\<open>isEqual\<close> holds of. The swaps do not use this test; \<open>stable_member\<close> and
  \<open>linear_member\<close> are the tests they make, by address alone.
\<close>

definition stable_in_token_set :: "heap \<Rightarrow> stable_pool \<Rightarrow> token \<Rightarrow> bool" where
  "stable_in_token_set h p t \<longleftrightarrow>
     list_ex (\<lambda>x. isEqual (token (base x)) t) (tok_arrays h (tokens p))"

definition linear_in_token_set :: "linear_pool \<Rightarrow> token \<Rightarrow> bool" where
  "linear_in_token_set p t \<longleftrightarrow> list_ex (\<lambda>x. isEqual (token x) t) (linear_tokens p)"

text \<open>Tokens of another chain that carry the address of a token of the example pools.\<close>

definition ex_tokenA_chain5 :: token where
  "ex_tokenA_chain5 = Token 5 ''0xA'' 18 (Some ''A'') None"

definition ex_tokenW_chain5 :: token where
  "ex_tokenW_chain5 = Token 5 ''0xW'' 18 (Some ''W'') None"

section \<open>Basic facts\<close>

lemma bindE_simps [simp]: "bindE (Inl e) f = Inl e" "bindE (Inr x) f = f x"
  by (simp_all add: bindE_def)

lemma bindP_returnP [simp]: "bindP (returnP x) f = f x"
  by (simp add: bindP_def returnP_def)

lemma throwP_apply [simp]: "throwP e h = (Inl e, h)"
  by (simp add: throwP_def)

lemma returnP_apply [simp]: "returnP x h = (Inr x, h)"
  by (simp add: returnP_def)

lemma liftE_apply [simp]: "liftE r h = (r, h)"
  by (simp add: liftE_def)

lemma bindP_throwP [simp]: "bindP (throwP e) f = throwP e"
  by (simp add: bindP_def fun_eq_iff)

lemma bindP_liftE [simp]:
  "bindP (liftE (Inl e)) f = throwP e" "bindP (liftE (Inr x)) f = f x"
  by (simp_all add: bindP_def fun_eq_iff)

lemma bindP_get_tok [simp]: "bindP (get_tok_array r) f h = f (tok_arrays h r) h"
  by (simp add: bindP_def get_tok_array_def)

lemma isl_bindE: "isl m \<Longrightarrow> isl (bindE m f)"
  by (cases m) auto

lemma isl_bindE2: "(\<And>x. isl (f x)) \<Longrightarrow> isl (bindE m f)"
  by (cases m) auto

lemma findIndex_ge: "- 1 \<le> findIndex P xs"
  by (induction xs) (auto simp: Let_def)

lemma findIndex_less: "findIndex P xs < int (length xs)"
  by (induction xs) (auto simp: Let_def)

lemma findIndex_neg_iff: "findIndex P xs < 0 \<longleftrightarrow> (\<forall>x\<in>set xs. \<not> P x)"
  by (induction xs) (use findIndex_ge in \<open>auto simp: Let_def\<close>)

lemma findIndex_nth: "0 \<le> findIndex P xs \<Longrightarrow> P (xs ! nat (findIndex P xs))"
proof (induction xs)
  case Nil
  then show ?case by simp
next
  case (Cons a xs)
  show ?case
  proof (cases "P a")
    case True
    then show ?thesis by simp
  next
    case False
    with Cons.prems have nn: "0 \<le> findIndex P xs"
      by (auto simp: Let_def split: if_splits)
    then have "nat (findIndex P xs + 1) = Suc (nat (findIndex P xs))" by simp
    with False nn Cons.IH show ?thesis by (simp add: Let_def)
  qed
qed

subsection \<open>The examples, evaluated\<close>

lemmas ex_defs = ex_rawA_def ex_rawB_def ex_rawBpt_def ex_heap0_def ex_raw_def ex_tokenA_def
  ex_tokenB_def ex_tokenC_def ex_tokenBpt_def ex_poolTokens_def ex_pool_def ex_heap1_def
  ex_utils_def ex_id_def ex_address_def ex_amount_def ex_rawM_def ex_rawW_def ex_rawLBpt_def
  ex_heapL_def ex_rawL_def ex_tokenM_def ex_tokenW_def ex_lpool_def

lemma ex_fromRawPool: "StablePool_fromRawPool ex_utils ex_raw ex_heap0 = (Inr ex_pool, ex_heap1)"
  unfolding StablePool_fromRawPool_def new_StablePool_def
  by (simp add: bindP_def sort_by_index_def get_raw_array_def new_tok_array_def
      get_tok_array_def copy_tok_array_def splice_tok_array_def splice1_def
      stable_poolToken_def fromHumanAmount_def parse_decimal_def digit_val_def
      new_TokenAmount_def new_StablePoolToken_def new_BPT_def Token_def bigint_div_def
      trunc_div_def WAD_def getPoolAddress_def ex_defs fun_eq_iff)

lemma ex_linear_fromRawPool:
  "LinearPool_fromRawPool ex_utils ex_rawL ex_heapL = (Inr ex_lpool, ex_heapL)"
  unfolding LinearPool_fromRawPool_def new_LinearPool_def
  by (simp add: bindP_def sort_by_index_def get_raw_array_def raw_at_def priceRate_or_def
      fromHumanAmount_def parse_decimal_def digit_val_def new_TokenAmount_def
      new_WrappedToken_def new_linear_BPT_def Token_def bigint_div_def trunc_div_def WAD_def
      MAX_TOKEN_BALANCE_def MAX_UINT112_def getPoolAddress_def ex_defs fun_eq_iff)

section \<open>Swaps with a token whose address the pool does not hold\<close>

lemma stable_swapGivenIn_unknown:
  "\<not> stable_member h p tokenIn \<or> \<not> stable_member h p tokenOut \<Longrightarrow>
   StablePool_swapGivenIn M p tokenIn tokenOut a h = (Inl UnknownToken, h)"
  unfolding StablePool_swapGivenIn_def stable_member_def
  by (auto simp: findIndex_neg_iff)

lemma stable_swapGivenOut_unknown:
  "\<not> stable_member h p tokenIn \<or> \<not> stable_member h p tokenOut \<Longrightarrow>
   StablePool_swapGivenOut M p tokenIn tokenOut a h = (Inl UnknownToken, h)"
  unfolding StablePool_swapGivenOut_def stable_member_def
  by (auto simp: findIndex_neg_iff)

lemma amount_at_absent:
  "\<not> linear_member p t \<Longrightarrow>
   amount_at (linear_tokens p)
     (findIndex (\<lambda>x. address (token x) = address t) (linear_tokens p)) = Inl TypeError"
  unfolding linear_member_def amount_at_def
  using findIndex_neg_iff[of "\<lambda>x. address (token x) = address t" "linear_tokens p"] by auto

lemma linear_in_absent:
  "\<not> linear_member p tokenIn \<Longrightarrow>
     \<not> isEqual tokenIn (token (mainToken p)) \<and>
     \<not> isEqual tokenIn (token (base (wrappedToken p))) \<and>
     \<not> isEqual tokenIn (token (base (bptToken p)))"
  by (auto simp: linear_member_def linear_tokens_def isEqual_def)

lemma linear_swapGivenIn_unknown:
  assumes "\<not> linear_member p tokenIn \<or> \<not> linear_member p tokenOut"
  shows "isl (LinearPool_swapGivenIn L p tokenIn tokenOut a)"
proof (cases "linear_member p tokenIn")
  case False
  from linear_in_absent[OF this] show ?thesis
    unfolding LinearPool_swapGivenIn_def by simp
next
  case True
  with assms have "\<not> linear_member p tokenOut" by simp
  from amount_at_absent[OF this] show ?thesis
    unfolding LinearPool_swapGivenIn_def by (auto intro!: isl_bindE2)
qed

lemma linear_swapGivenOut_unknown:
  assumes "\<not> linear_member p tokenIn \<or> \<not> linear_member p tokenOut"
  shows "isl (LinearPool_swapGivenOut L p tokenIn tokenOut a)"
proof (cases "linear_member p tokenOut")
  case False
  from amount_at_absent[OF this] show ?thesis
    unfolding LinearPool_swapGivenOut_def by simp
next
  case True
  with assms have "\<not> linear_member p tokenIn" by simp
  from linear_in_absent[OF this] show ?thesis
    unfolding LinearPool_swapGivenOut_def by (auto intro!: isl_bindE2)
qed

section \<open>Running a swap on a store\<close>

lemma bindE_eq_Inr: "bindE m f = Inr y \<longleftrightarrow> (\<exists>x. m = Inr x \<and> f x = Inr y)"
  by (cases m) auto

lemma bindP_assoc: "bindP (bindP m f) g = bindP m (\<lambda>x. bindP (f x) g)"
  by (auto simp: bindP_def fun_eq_iff split: prod.splits sum.splits)

lemma bindP_if: "bindP (if c then m else m') f = (if c then bindP m f else bindP m' f)"
  by simp

lemma bindP_liftE_apply:
  "bindP (liftE r) f h = (case r of Inl e \<Rightarrow> (Inl e, h) | Inr x \<Rightarrow> f x h)"
  by (simp add: bindP_def split: sum.splits)

lemma bindP_new_int:
  "bindP (new_int_array xs) f h =
     f (fresh h) (h\<lparr>int_arrays := (int_arrays h)(fresh h := xs), fresh := Suc (fresh h)\<rparr>)"
  by (simp add: bindP_def new_int_array_def)

lemma bindP_copy_int:
  "bindP (copy_int_array r) f h =
     f (fresh h)
       (h\<lparr>int_arrays := (int_arrays h)(fresh h := int_arrays h r), fresh := Suc (fresh h)\<rparr>)"
  by (simp add: bindP_def copy_int_array_def new_int_array_def)

lemma bindP_set_int_index:
  "bindP (set_int_index r i v) f h =
     f () (h\<lparr>int_arrays := (int_arrays h)
             (r := (if 0 \<le> i \<and> i < int (length (int_arrays h r))
                    then (int_arrays h r)[nat i := v] else int_arrays h r))\<rparr>)"
  by (simp add: bindP_def set_int_index_def)

lemma call_math1_apply:
  "call_math1 g r h =
     (fst (g (int_arrays h r)),
      h\<lparr>int_arrays := (int_arrays h)(r := snd (g (int_arrays h r)))\<rparr>)"
  by (simp add: call_math1_def split: prod.splits)

lemma call_math2_apply:
  "call_math2 g r r' h =
     (fst (g (int_arrays h r) (int_arrays h r')),
      h\<lparr>int_arrays := (int_arrays h)
           (r := fst (snd (g (int_arrays h r) (int_arrays h r'))),
            r' := snd (snd (g (int_arrays h r) (int_arrays h r'))))\<rparr>)"
  by (simp add: call_math2_def split: prod.splits)

lemma bindP_call_math1:
  "bindP (call_math1 g r) f h =
     (case fst (g (int_arrays h r)) of
        Inl e \<Rightarrow> (Inl e, h\<lparr>int_arrays := (int_arrays h)(r := snd (g (int_arrays h r)))\<rparr>)
      | Inr x \<Rightarrow> f x (h\<lparr>int_arrays := (int_arrays h)(r := snd (g (int_arrays h r)))\<rparr>))"
  by (simp add: bindP_def call_math1_apply split: sum.splits)

lemma bindP_call_math2:
  "bindP (call_math2 g r r') f h =
     (case fst (g (int_arrays h r) (int_arrays h r')) of
        Inl e \<Rightarrow> (Inl e, snd (call_math2 g r r' h))
      | Inr x \<Rightarrow> f x (snd (call_math2 g r r' h)))"
  by (simp add: bindP_def call_math2_apply split: sum.splits)

lemmas exec = bindP_assoc bindP_if bindP_liftE_apply bindP_new_int bindP_copy_int
  bindP_set_int_index bindP_call_math1 bindP_call_math2 call_math1_apply call_math2_apply

lemmas amount_defs = new_TokenAmount_def fromScale18Amount_def sub_def mulUpFixed_def
  mulDownFixed_def divUpFixed_def divDownFixed_def MathSol_mulDownFixed_def
  MathSol_mulUpFixed_def MathSol_divDownFixed_def MathSol_divUpFixed_def complementFixed_def
  trunc_div_def ceil_div_def WAD_def subtractSwapFeeAmount_def addSwapFeeAmount_def

section \<open>Absent tokens: by address, not by chain and address\<close>

lemma stable_in_token_set_member:
  "stable_in_token_set h p t \<Longrightarrow> stable_member h p t"
  unfolding stable_in_token_set_def stable_member_def list_ex_iff isEqual_def by blast

lemma linear_in_token_set_member:
  "linear_in_token_set p t \<Longrightarrow> linear_member p t"
  unfolding linear_in_token_set_def linear_member_def list_ex_iff isEqual_def by blast

text \<open>
  Claim C2, as stated, fails when absence from the token set is read with the identity of
  tokens (chain and address): the swaps look a token up by its address alone. The token of
  chain \<open>5\<close> with the address of A is equal to no token of the example stable pool (all of
  chain \<open>1\<close>), and both swaps with it as the input return an amount. In the example linear
  pool the token of chain \<open>5\<close> with the address of the wrapped token is equal to no token of
  the pool, and both swaps with it as the output return: the limit is read from the wrapped
  entry, found by address, and the amount is computed as for the liquidity token, the branch
  taken when \<^verbatim>\<open>isEqual\<close> does not hold of the wrapped token.
\<close>

theorem C2_token_of_another_chain_counterexample:
  "\<not> stable_in_token_set ex_heap1 ex_pool ex_tokenA_chain5 \<and>
   fst (StablePool_swapGivenIn ex_math ex_pool ex_tokenA_chain5 ex_tokenB
          (ex_amount ex_tokenA_chain5 (10 * 10 ^ 18)) ex_heap1)
     = Inr (ex_amount ex_tokenB (14994 * 10 ^ 15)) \<and>
   fst (StablePool_swapGivenOut ex_math ex_pool ex_tokenA_chain5 ex_tokenB
          (ex_amount ex_tokenB (10 * 10 ^ 18)) ex_heap1)
     = Inr (ex_amount ex_tokenA_chain5 6669334400426837401) \<and>
   \<not> linear_in_token_set ex_lpool ex_tokenW_chain5 \<and>
   LinearPool_swapGivenIn ex_lmath ex_lpool ex_tokenM ex_tokenW_chain5
       (ex_amount ex_tokenM (10 * 10 ^ 18))
     = Inr (ex_amount ex_tokenBpt (10 * 10 ^ 18)) \<and>
   LinearPool_swapGivenOut ex_lmath ex_lpool ex_tokenM ex_tokenW_chain5
       (ex_amount ex_tokenW_chain5 (10 * 10 ^ 18))
     = Inr (ex_amount ex_tokenM (10 * 10 ^ 18))"
proof -
  have s: "\<not> stable_in_token_set ex_heap1 ex_pool ex_tokenA_chain5"
    by (simp add: stable_in_token_set_def isEqual_def ex_tokenA_chain5_def ex_defs Token_def)
  have i: "fst (StablePool_swapGivenIn ex_math ex_pool ex_tokenA_chain5 ex_tokenB
          (ex_amount ex_tokenA_chain5 (10 * 10 ^ 18)) ex_heap1)
     = Inr (ex_amount ex_tokenB (14994 * 10 ^ 15))"
    unfolding StablePool_swapGivenIn_def
    by (simp add: exec amount_defs ex_tokenA_chain5_def ex_defs ex_math_def token_at_def
        isEqual_def Token_def)
  have out: "fst (StablePool_swapGivenOut ex_math ex_pool ex_tokenA_chain5 ex_tokenB
          (ex_amount ex_tokenB (10 * 10 ^ 18)) ex_heap1)
     = Inr (ex_amount ex_tokenA_chain5 6669334400426837401)"
    unfolding StablePool_swapGivenOut_def
    by (simp add: exec amount_defs ex_tokenA_chain5_def ex_defs ex_math_def token_at_def
        isEqual_def Token_def)
  have l: "\<not> linear_in_token_set ex_lpool ex_tokenW_chain5"
    by (simp add: linear_in_token_set_def linear_tokens_def isEqual_def ex_tokenW_chain5_def
        ex_defs Token_def)
  have li: "LinearPool_swapGivenIn ex_lmath ex_lpool ex_tokenM ex_tokenW_chain5
       (ex_amount ex_tokenM (10 * 10 ^ 18))
     = Inr (ex_amount ex_tokenBpt (10 * 10 ^ 18))"
    unfolding LinearPool_swapGivenIn_def exactMainTokenInForBptOut_def
    by (simp add: amount_defs amount_at_def linear_tokens_def isEqual_def ex_lmath_def
        ex_tokenW_chain5_def ex_defs Token_def)
  have lo: "LinearPool_swapGivenOut ex_lmath ex_lpool ex_tokenM ex_tokenW_chain5
       (ex_amount ex_tokenW_chain5 (10 * 10 ^ 18))
     = Inr (ex_amount ex_tokenM (10 * 10 ^ 18))"
    unfolding LinearPool_swapGivenOut_def mainTokenInForExactBptOut_def
    by (simp add: amount_defs amount_at_def linear_tokens_def isEqual_def ex_lmath_def
        ex_tokenW_chain5_def ex_defs Token_def)
  from s i out l li lo show ?thesis by (intro conjI)
qed

text \<open>
  Claim C2, amended. For a stable pool and for a linear pool, \<open>swapGivenIn\<close> and
  \<open>swapGivenOut\<close> fail whenever the address of the input token or the address of the
  output token is the address of no token of the pool, whatever the swap amount and
  whatever the math routines do. The stable pool throws 'Pool does not contain the tokens
  provided' before anything else; the linear pool throws it for an absent input token, and
  for an absent output token fails on the read of \<^verbatim>\<open>this.tokens[-1].amount\<close> (or earlier in
  the math). A token whose address no token of the pool has is in particular equal to no
  token of the pool (lemmas \<open>stable_in_token_set_member\<close>, \<open>linear_in_token_set_member\<close>).
\<close>

theorem C2_absent_address_fails:
  "(\<not> stable_member h p tokenIn \<or> \<not> stable_member h p tokenOut \<longrightarrow>
      fst (StablePool_swapGivenIn M p tokenIn tokenOut a h) = Inl UnknownToken \<and>
      fst (StablePool_swapGivenOut M p tokenIn tokenOut a h) = Inl UnknownToken) \<and>
   (\<not> linear_member q tokenIn \<or> \<not> linear_member q tokenOut \<longrightarrow>
      isl (LinearPool_swapGivenIn L q tokenIn tokenOut a) \<and>
      isl (LinearPool_swapGivenOut L q tokenIn tokenOut a))"
  using stable_swapGivenIn_unknown[of h p tokenIn tokenOut M a]
    stable_swapGivenOut_unknown[of h p tokenIn tokenOut M a]
    linear_swapGivenIn_unknown[of q tokenIn tokenOut L a]
    linear_swapGivenOut_unknown[of q tokenIn tokenOut L a]
  by auto

theorem C2_absent_address_fails_witness:
  "\<not> stable_member ex_heap1 ex_pool ex_tokenC \<and>
   fst (StablePool_swapGivenIn ex_math ex_pool ex_tokenA ex_tokenC (ex_amount ex_tokenA 7)
          ex_heap1) = Inl UnknownToken \<and>
   fst (StablePool_swapGivenOut ex_math ex_pool ex_tokenA ex_tokenC (ex_amount ex_tokenA 7)
          ex_heap1) = Inl UnknownToken \<and>
   \<not> linear_member ex_lpool ex_tokenC \<and>
   isl (LinearPool_swapGivenIn ex_lmath ex_lpool ex_tokenA ex_tokenC (ex_amount ex_tokenA 7)) \<and>
   isl (LinearPool_swapGivenOut ex_lmath ex_lpool ex_tokenA ex_tokenC (ex_amount ex_tokenA 7))"
proof -
  have s: "\<not> stable_member ex_heap1 ex_pool ex_tokenC"
    by (simp add: stable_member_def ex_defs Token_def)
  have l: "\<not> linear_member ex_lpool ex_tokenC"
    by (simp add: linear_member_def linear_tokens_def ex_defs Token_def)
  from s l
    C2_absent_address_fails[of ex_heap1 ex_pool ex_tokenA ex_tokenC ex_math
      "ex_amount ex_tokenA 7" ex_lpool ex_lmath]
  show ?thesis by simp
qed

section \<open>The pool limit\<close>

lemma stable_member_findIndex:
  "stable_member h p t \<Longrightarrow>
   0 \<le> findIndex (\<lambda>x. address (token (base x)) = address t) (tok_arrays h (tokens p))"
  using findIndex_neg_iff[of "\<lambda>x. address (token (base x)) = address t"
      "tok_arrays h (tokens p)"]
  by (auto simp: stable_member_def)

lemma stable_swapGivenOut_limit:
  "stable_member h p tokenIn \<Longrightarrow> stable_member h p tokenOut \<Longrightarrow>
   amount a > stable_held h p tokenOut \<Longrightarrow>
   StablePool_swapGivenOut M p tokenIn tokenOut a h = (Inl ExceedsPoolLimit, h)"
  unfolding StablePool_swapGivenOut_def stable_held_def
  by (auto dest!: stable_member_findIndex)

text \<open>
  The guard of the stable \<open>swapGivenIn\<close> compares the given input with the balance of the
  input token.
\<close>

lemma stable_swapGivenIn_limit:
  "stable_member h p tokenIn \<Longrightarrow> stable_member h p tokenOut \<Longrightarrow>
   amount a > stable_held h p tokenIn \<Longrightarrow>
   StablePool_swapGivenIn M p tokenIn tokenOut a h = (Inl ExceedsPoolLimit, h)"
  unfolding StablePool_swapGivenIn_def stable_held_def
  by (auto dest!: stable_member_findIndex)

lemma linear_member_amount_at:
  "linear_member p t \<Longrightarrow>
   amount_at (linear_tokens p)
     (findIndex (\<lambda>x. address (token x) = address t) (linear_tokens p)) = Inr (linear_held p t)"
  using findIndex_neg_iff[of "\<lambda>x. address (token x) = address t" "linear_tokens p"]
    findIndex_less[of "\<lambda>x. address (token x) = address t" "linear_tokens p"]
  by (auto simp: linear_member_def amount_at_def linear_held_def)

lemma linear_swapGivenOut_limit:
  "linear_member p tokenOut \<Longrightarrow> amount a > linear_held p tokenOut \<Longrightarrow>
   LinearPool_swapGivenOut L p tokenIn tokenOut a = Inl ExceedsPoolLimit"
  unfolding LinearPool_swapGivenOut_def
  by (simp add: linear_member_amount_at)

lemma linear_swapGivenIn_limit:
  assumes "LinearPool_swapGivenIn L p tokenIn tokenOut a = Inr r"
  shows "linear_member p tokenOut \<and> amount r \<le> linear_held p tokenOut"
proof -
  have m: "linear_member p tokenOut"
  proof (rule ccontr)
    assume "\<not> linear_member p tokenOut"
    then have "isl (LinearPool_swapGivenIn L p tokenIn tokenOut a)"
      by (intro linear_swapGivenIn_unknown) simp
    with assms show False by simp
  qed
  from assms show ?thesis
    unfolding LinearPool_swapGivenIn_def
    by (auto simp: bindE_eq_Inr linear_member_amount_at[OF m] m split: if_splits)
qed

text \<open>
  Claim C1, as stated, fails for the stable \<open>swapGivenIn\<close>: it compares the given input with
  the balance of the input token and never compares the amount it computes with the
  balance of the output token. On a snapshot of the example pool that holds \<open>10^18\<close> of its
  own liquidity token, a swap of \<open>10 * 10^18\<close> of A for the liquidity token returns
  \<open>29.988 * 10^18\<close> (with the one-for-one stand-in for the math routines, which are not
  among the sources: what a join of that size mints is of the order of its value).
\<close>

theorem C1_stable_swapGivenIn_counterexample:
  "stable_member ex_heap_low_bpt ex_pool ex_tokenA \<and>
   stable_member ex_heap_low_bpt ex_pool ex_tokenBpt \<and>
   stable_held ex_heap_low_bpt ex_pool ex_tokenBpt = 10 ^ 18 \<and>
   fst (StablePool_swapGivenIn ex_math ex_pool ex_tokenA ex_tokenBpt
          (ex_amount ex_tokenA (10 * 10 ^ 18)) ex_heap_low_bpt)
     = Inr (ex_amount ex_tokenBpt (29988 * 10 ^ 15))"
  unfolding StablePool_swapGivenIn_def stable_held_def stable_member_def
  by (simp add: exec amount_defs ex_heap_low_bpt_def ex_defs ex_math_def token_at_def
      isEqual_def Token_def)

text \<open>
  Claim C1, amended. \<open>swapGivenOut\<close> of a stable pool (both tokens members) and of a linear
  pool (the output token a member) fails with 'Swap amount exceeds the pool limit' when the
  requested output exceeds the balance the pool holds of the output token; a \<open>swapGivenIn\<close>
  of a linear pool that returns has computed no more than the pool holds of the output
  token (it fails otherwise). The balance is the \<^verbatim>\<open>amount\<close> of the entry, also for the
  liquidity token.
\<close>

theorem C1_pool_limit:
  "(stable_member h p tokenIn \<and> stable_member h p tokenOut \<and>
      stable_held h p tokenOut < amount a \<longrightarrow>
      fst (StablePool_swapGivenOut M p tokenIn tokenOut a h) = Inl ExceedsPoolLimit) \<and>
   (linear_member q tokenOut' \<and> linear_held q tokenOut' < amount a' \<longrightarrow>
      LinearPool_swapGivenOut L q tokenIn' tokenOut' a' = Inl ExceedsPoolLimit) \<and>
   (\<forall>r. LinearPool_swapGivenIn L q tokenIn'' tokenOut'' a'' = Inr r \<longrightarrow>
      linear_member q tokenOut'' \<and> amount r \<le> linear_held q tokenOut'')"
  using stable_swapGivenOut_limit[of h p tokenIn tokenOut a M]
    linear_swapGivenOut_limit[of q tokenOut' a' L tokenIn']
    linear_swapGivenIn_limit[of L q tokenIn'' tokenOut'' a'']
  by auto

theorem C1_pool_limit_witness:
  "stable_member ex_heap1 ex_pool ex_tokenA \<and> stable_member ex_heap1 ex_pool ex_tokenB \<and>
   stable_held ex_heap1 ex_pool ex_tokenB < amount (ex_amount ex_tokenB (6000 * 10 ^ 18)) \<and>
   fst (StablePool_swapGivenOut ex_math ex_pool ex_tokenA ex_tokenB
          (ex_amount ex_tokenB (6000 * 10 ^ 18)) ex_heap1) = Inl ExceedsPoolLimit \<and>
   linear_member ex_lpool ex_tokenW \<and>
   linear_held ex_lpool ex_tokenW < amount (ex_amount ex_tokenW (51 * 10 ^ 18)) \<and>
   LinearPool_swapGivenOut ex_lmath ex_lpool ex_tokenM ex_tokenW
     (ex_amount ex_tokenW (51 * 10 ^ 18)) = Inl ExceedsPoolLimit \<and>
   LinearPool_swapGivenIn ex_lmath ex_lpool ex_tokenM ex_tokenW
     (ex_amount ex_tokenM (10 * 10 ^ 18)) = Inr (ex_amount ex_tokenW (10 * 10 ^ 18)) \<and>
   amount (ex_amount ex_tokenW (10 * 10 ^ 18)) \<le> linear_held ex_lpool ex_tokenW"
proof -
  have s: "stable_member ex_heap1 ex_pool ex_tokenA \<and> stable_member ex_heap1 ex_pool ex_tokenB \<and>
      stable_held ex_heap1 ex_pool ex_tokenB < amount (ex_amount ex_tokenB (6000 * 10 ^ 18))"
    by (simp add: stable_member_def stable_held_def ex_defs Token_def)
  have l: "linear_member ex_lpool ex_tokenW \<and>
      linear_held ex_lpool ex_tokenW < amount (ex_amount ex_tokenW (51 * 10 ^ 18))"
    by (simp add: linear_member_def linear_held_def linear_tokens_def ex_defs Token_def)
  have i: "LinearPool_swapGivenIn ex_lmath ex_lpool ex_tokenM ex_tokenW
     (ex_amount ex_tokenM (10 * 10 ^ 18)) = Inr (ex_amount ex_tokenW (10 * 10 ^ 18))"
    unfolding LinearPool_swapGivenIn_def exactMainTokenInForWrappedOut_def
    by (simp add: amount_defs amount_at_def linear_tokens_def isEqual_def ex_lmath_def
        ex_defs Token_def)
  from s l i
    C1_pool_limit[of ex_heap1 ex_pool ex_tokenA ex_tokenB "ex_amount ex_tokenB (6000 * 10 ^ 18)"
      ex_math ex_lpool ex_tokenW "ex_amount ex_tokenW (51 * 10 ^ 18)" ex_lmath ex_tokenM
      ex_tokenM ex_tokenW "ex_amount ex_tokenM (10 * 10 ^ 18)"]
  show ?thesis by blast
qed

section \<open>The swap fee\<close>

lemma ceil_div_ge: "0 < b \<Longrightarrow> a \<le> ceil_div a b * b"
proof -
  assume b: "0 < b"
  have "(- a) div b * b \<le> - a" using b
    by (metis div_mult_mod_eq add.commute le_add_same_cancel2 pos_mod_sign)
  then show ?thesis by (simp add: ceil_div_def)
qed

lemma subtract_fee:
  assumes "subtractSwapFeeAmount p a = Inr r"
  shows "token r = token a \<and>
         amount r = amount a - MathSol_mulUpFixed (amount a) (swapFee p) \<and>
         amount r * WAD \<le> amount a * (WAD - swapFee p)"
proof -
  from assms have r: "token r = token a"
      "amount r = amount a - MathSol_mulUpFixed (amount a) (swapFee p)"
    by (auto simp: subtractSwapFeeAmount_def mulUpFixed_def sub_def new_TokenAmount_def
        bindE_eq_Inr split: if_splits)
  have "amount a * swapFee p \<le> MathSol_mulUpFixed (amount a) (swapFee p) * WAD"
    unfolding MathSol_mulUpFixed_def by (rule ceil_div_ge) (simp add: WAD_def)
  moreover have "amount r * WAD =
      amount a * WAD - MathSol_mulUpFixed (amount a) (swapFee p) * WAD"
    by (simp add: r algebra_simps)
  moreover have "amount a * (WAD - swapFee p) = amount a * WAD - amount a * swapFee p"
    by (simp add: algebra_simps)
  ultimately show ?thesis using r by simp
qed

lemma add_fee:
  assumes "addSwapFeeAmount p b = Inr r"
  shows "token r = token b \<and>
         MathSol_divUpFixed (amount b) (complementFixed (swapFee p)) = Inr (amount r) \<and>
         (swapFee p < WAD \<longrightarrow> amount b * WAD \<le> amount r * (WAD - swapFee p))"
proof -
  from assms have r: "token r = token b"
      "MathSol_divUpFixed (amount b) (complementFixed (swapFee p)) = Inr (amount r)"
    by (auto simp: addSwapFeeAmount_def divUpFixed_def new_TokenAmount_def
        bindE_eq_Inr split: if_splits)
  have "amount b * WAD \<le> amount r * (WAD - swapFee p)" if "swapFee p < WAD"
  proof -
    from that r(2) have "amount r = ceil_div (amount b * WAD) (WAD - swapFee p)"
      by (auto simp: MathSol_divUpFixed_def complementFixed_def split: if_splits)
    with ceil_div_ge[of "WAD - swapFee p" "amount b * WAD"] that show ?thesis by simp
  qed
  with r show ?thesis by simp
qed

lemma swapGivenIn_through_fee:
  assumes "subtractSwapFeeAmount p a = subtractSwapFeeAmount p a'"
    and "amount a \<le> stable_held h p tokenIn" and "amount a' \<le> stable_held h p tokenIn"
  shows "StablePool_swapGivenIn M p tokenIn tokenOut a h =
         StablePool_swapGivenIn M p tokenIn tokenOut a' h"
  using assms unfolding StablePool_swapGivenIn_def stable_held_def
  by simp

lemma math_in_resultI:
  "fst (calcInGivenOut M a b i j y d) = Inr x \<Longrightarrow> math_in_result M x"
  "fst (calcTokenInGivenExactBptOut M a b i y t d f) = Inr x \<Longrightarrow> math_in_result M x"
  "fst (calcBptInGivenExactTokensOut M a b ys t d f) = Inr x \<Longrightarrow> math_in_result M x"
  unfolding math_in_result_def by blast+

text \<open>
  The tail of the stable \<open>swapGivenOut\<close>: the result of the math is converted to raw units
  rounding up, the fee is added, and the sum is divided by the rate of the input token with
  \<^verbatim>\<open>divDownFixed\<close>.
\<close>

lemma swapGivenOut_tail:
  assumes "fst (StablePool_swapGivenOut M p tokenIn tokenOut c h) = Inr r"
  shows "\<exists>x amountIn withFee. math_in_result M x \<and>
           fromScale18Amount tokenIn x True = Inr amountIn \<and>
           addSwapFeeAmount p amountIn = Inr withFee \<and>
           divDownFixed withFee (rate (stable_entry h p tokenIn)) = Inr r"
  using assms unfolding StablePool_swapGivenOut_def stable_entry_def
  apply (simp add: exec split: if_splits sum.splits)
      apply (blast intro: math_in_resultI)+
  done

lemma ex_swapGivenOut:
  "fst (StablePool_swapGivenOut ex_math ex_pool ex_tokenA ex_tokenB (ex_amount ex_tokenB 2)
          ex_heap1) = Inr (ex_amount ex_tokenA 1)"
  unfolding StablePool_swapGivenOut_def
  by (simp add: exec amount_defs ex_defs ex_math_def token_at_def isEqual_def Token_def)

text \<open>
  Claim C3, as stated, fails in the given-out direction: \<open>addSwapFeeAmount\<close> divides with
  \<^verbatim>\<open>divUpFixed\<close>. With the fee of 0.04 per cent of the example pool, 10 units become 11;
  the division rounded down gives 10.
\<close>

theorem C3_addSwapFeeAmount_counterexample:
  "addSwapFeeAmount ex_pool (ex_amount ex_tokenA 10) = Inr (ex_amount ex_tokenA 11) \<and>
   MathSol_divDownFixed 10 (complementFixed (swapFee ex_pool)) = Inr 10"
  by (simp add: amount_defs ex_defs Token_def)

text \<open>
  Claim C3, amended. In the stable \<open>swapGivenIn\<close> the fee is subtracted from the input
  before the math runs: the fee amount is the round-up product \<^verbatim>\<open>mulUpFixed\<close> of the input
  and the swap fee, what remains is at most the exact remainder, and beyond its limit guard
  the swap depends on the input only through what remains. In the stable \<open>swapGivenOut\<close>
  the fee is added after the math, to the input the math computed, by the round-up
  division \<^verbatim>\<open>divUpFixed\<close> by the complement of the fee: the sum is at least the exact
  quotient. Both roundings are in the protocol's favour.
\<close>

theorem C3_swap_fee:
  "(\<forall>r. subtractSwapFeeAmount p a = Inr r \<longrightarrow>
      token r = token a \<and>
      amount r = amount a - MathSol_mulUpFixed (amount a) (swapFee p) \<and>
      amount r * WAD \<le> amount a * (WAD - swapFee p)) \<and>
   (subtractSwapFeeAmount p a = subtractSwapFeeAmount p a' \<and>
      amount a \<le> stable_held h p tokenIn \<and> amount a' \<le> stable_held h p tokenIn \<longrightarrow>
      StablePool_swapGivenIn M p tokenIn tokenOut a h =
      StablePool_swapGivenIn M p tokenIn tokenOut a' h) \<and>
   (\<forall>r. addSwapFeeAmount p b = Inr r \<longrightarrow>
      token r = token b \<and>
      MathSol_divUpFixed (amount b) (complementFixed (swapFee p)) = Inr (amount r) \<and>
      (swapFee p < WAD \<longrightarrow> amount b * WAD \<le> amount r * (WAD - swapFee p))) \<and>
   (\<forall>r. fst (StablePool_swapGivenOut M p tokenIn tokenOut c h) = Inr r \<longrightarrow>
      (\<exists>x amountIn withFee. math_in_result M x \<and>
         fromScale18Amount tokenIn x True = Inr amountIn \<and>
         addSwapFeeAmount p amountIn = Inr withFee \<and>
         divDownFixed withFee (rate (stable_entry h p tokenIn)) = Inr r))"
  using subtract_fee[of p a] swapGivenIn_through_fee[of p a a' h tokenIn M tokenOut]
    add_fee[of p b] swapGivenOut_tail[of M p tokenIn tokenOut c h]
  by blast

theorem C3_swap_fee_witness:
  "subtractSwapFeeAmount ex_pool (ex_amount ex_tokenA 1) = Inr (ex_amount ex_tokenA 0) \<and>
   subtractSwapFeeAmount ex_pool (ex_amount ex_tokenA 0) = Inr (ex_amount ex_tokenA 0) \<and>
   amount (ex_amount ex_tokenA 1) \<le> stable_held ex_heap1 ex_pool ex_tokenA \<and>
   amount (ex_amount ex_tokenA 0) \<le> stable_held ex_heap1 ex_pool ex_tokenA \<and>
   addSwapFeeAmount ex_pool (ex_amount ex_tokenA 10) = Inr (ex_amount ex_tokenA 11) \<and>
   swapFee ex_pool < WAD \<and>
   fst (StablePool_swapGivenOut ex_math ex_pool ex_tokenA ex_tokenB (ex_amount ex_tokenB 2)
          ex_heap1) = Inr (ex_amount ex_tokenA 1) \<and>
   amount (ex_amount ex_tokenA 0) * WAD \<le> amount (ex_amount ex_tokenA 1) * (WAD - swapFee ex_pool) \<and>
   StablePool_swapGivenIn ex_math ex_pool ex_tokenA ex_tokenB (ex_amount ex_tokenA 1) ex_heap1 =
   StablePool_swapGivenIn ex_math ex_pool ex_tokenA ex_tokenB (ex_amount ex_tokenA 0) ex_heap1 \<and>
   amount (ex_amount ex_tokenA 10) * WAD \<le> amount (ex_amount ex_tokenA 11) * (WAD - swapFee ex_pool) \<and>
   (\<exists>x amountIn withFee. math_in_result ex_math x \<and>
      fromScale18Amount ex_tokenA x True = Inr amountIn \<and>
      addSwapFeeAmount ex_pool amountIn = Inr withFee \<and>
      divDownFixed withFee (rate (stable_entry ex_heap1 ex_pool ex_tokenA))
        = Inr (ex_amount ex_tokenA 1))"
proof -
  have s1: "subtractSwapFeeAmount ex_pool (ex_amount ex_tokenA 1) = Inr (ex_amount ex_tokenA 0)"
    and s0: "subtractSwapFeeAmount ex_pool (ex_amount ex_tokenA 0) = Inr (ex_amount ex_tokenA 0)"
    and a: "addSwapFeeAmount ex_pool (ex_amount ex_tokenA 10) = Inr (ex_amount ex_tokenA 11)"
    by (simp_all add: amount_defs ex_defs Token_def)
  have g: "amount (ex_amount ex_tokenA 1) \<le> stable_held ex_heap1 ex_pool ex_tokenA"
      "amount (ex_amount ex_tokenA 0) \<le> stable_held ex_heap1 ex_pool ex_tokenA"
      "swapFee ex_pool < WAD"
    by (simp_all add: stable_held_def WAD_def ex_defs Token_def)
  note T = C3_swap_fee[of ex_pool "ex_amount ex_tokenA 1" "ex_amount ex_tokenA 0" ex_heap1
      ex_tokenA ex_math ex_tokenB "ex_amount ex_tokenA 10" "ex_amount ex_tokenB 2"]
  note k1 = T[THEN conjunct1, rule_format, OF s1, THEN conjunct2, THEN conjunct2]
  have "subtractSwapFeeAmount ex_pool (ex_amount ex_tokenA 1) =
        subtractSwapFeeAmount ex_pool (ex_amount ex_tokenA 0)"
    by (simp only: s1 s0)
  note k2 = T[THEN conjunct2, THEN conjunct1, rule_format, OF conjI[OF this conjI[OF g(1) g(2)]]]
  note k3 = T[THEN conjunct2, THEN conjunct2, THEN conjunct1, rule_format, OF a,
      THEN conjunct2, THEN conjunct2, rule_format, OF g(3)]
  note k4 = T[THEN conjunct2, THEN conjunct2, THEN conjunct2, rule_format, OF ex_swapGivenOut]
  show ?thesis
    by (intro conjI s1 s0 a g ex_swapGivenOut k1 k2 k3 k4)
qed

section \<open>Rounding of the stable swaps\<close>

text \<open>
  Claim C4. The amount in that the stable \<open>swapGivenOut\<close> returns is rounded up in the
  conversion to raw units and in the addition of the fee, and rounded down in the final
  division by the rate of the input token (\<open>swapGivenOut_tail\<close>). In the example pool, for
  2 units of B out: the math gives 4 normalised units, 5 with the fee; the rate of A is 3,
  and the swap returns 1 unit of A where the division rounded up gives 2.
\<close>

theorem C4_swapGivenOut_final_division_rounds_down:
  "fromScale18Amount ex_tokenA 4 True = Inr (ex_amount ex_tokenA 4) \<and>
   addSwapFeeAmount ex_pool (ex_amount ex_tokenA 4) = Inr (ex_amount ex_tokenA 5) \<and>
   rate (stable_entry ex_heap1 ex_pool ex_tokenA) = 3 * 10 ^ 18 \<and>
   divUpFixed (ex_amount ex_tokenA 5) (3 * 10 ^ 18) = Inr (ex_amount ex_tokenA 2) \<and>
   divDownFixed (ex_amount ex_tokenA 5) (3 * 10 ^ 18) = Inr (ex_amount ex_tokenA 1) \<and>
   fst (StablePool_swapGivenOut ex_math ex_pool ex_tokenA ex_tokenB (ex_amount ex_tokenB 2)
          ex_heap1) = Inr (ex_amount ex_tokenA 1)"
  unfolding StablePool_swapGivenOut_def stable_entry_def
  by (simp add: exec amount_defs ex_defs ex_math_def token_at_def isEqual_def Token_def)

section \<open>Swap limits\<close>

lemma find_js_findIndex:
  "find_js P xs = (if findIndex P xs < 0 then None else Some (xs ! nat (findIndex P xs)))"
proof (induction xs)
  case Nil
  then show ?case by (simp add: find_js_def)
next
  case (Cons a xs)
  then show ?case
    using findIndex_ge[of P xs]
    by (auto simp: find_js_def Let_def nat_add_distrib)
qed

lemma stable_find_member:
  "stable_member h p t \<Longrightarrow>
   find_js (\<lambda>x. address (token (base x)) = address t) (tok_arrays h (tokens p))
     = Some (stable_entry h p t)"
  using stable_member_findIndex[of h p t]
  by (simp add: find_js_findIndex stable_entry_def)

lemma linear_member_findIndex:
  "linear_member p t \<Longrightarrow>
   0 \<le> findIndex (\<lambda>x. address (token x) = address t) (linear_tokens p)"
  using findIndex_neg_iff[of "\<lambda>x. address (token x) = address t" "linear_tokens p"]
  by (auto simp: linear_member_def)

lemma linear_find_member:
  "linear_member p t \<Longrightarrow>
   \<exists>e. find_js (\<lambda>x. address (token x) = address t) (linear_tokens p) = Some e \<and>
       amount e = linear_held p t"
  using linear_member_findIndex[of p t]
  by (simp add: find_js_findIndex linear_held_def)

lemma stable_limit_GivenOut:
  "stable_member h p tokenIn \<Longrightarrow> stable_member h p tokenOut \<Longrightarrow>
   fst (StablePool_getLimitAmountSwap p tokenIn tokenOut GivenOut h) =
     bigint_div (stable_held h p tokenOut * ALMOST_ONE) (rate (stable_entry h p tokenOut))"
  unfolding StablePool_getLimitAmountSwap_def
  by (simp add: stable_find_member stable_held_def stable_entry_def)

lemma ONE_bigint_div [simp]: "bigint_div a ONE = Inr (trunc_div a ONE)"
  by (simp add: bigint_div_def ONE_def)

lemma linear_limit_GivenOut:
  assumes "linear_member q tokenIn" "linear_member q tokenOut"
  shows "LinearPool_getLimitAmountSwap L q tokenIn tokenOut GivenOut =
     (if isEqual tokenOut (token (base (bptToken q)))
      then Inr (trunc_div (linear_held q tokenOut * MAX_RATIO) ONE)
      else Inr (trunc_div (linear_held q tokenOut * ALMOST_ONE) ONE))"
  using linear_find_member[OF assms(1)] linear_find_member[OF assms(2)]
  unfolding LinearPool_getLimitAmountSwap_def by auto

lemma linear_limit_GivenIn:
  assumes "linear_member q tokenIn" "linear_member q tokenOut"
  shows "LinearPool_getLimitAmountSwap L q tokenIn tokenOut GivenIn =
     (if isEqual tokenOut (token (base (bptToken q))) then Inr MAX_TOKEN_BALANCE
      else bindE (fromRawAmount tokenOut (trunc_div (linear_held q tokenOut * ALMOST_ONE) ONE))
             (\<lambda>a. bindE (LinearPool_swapGivenOut L q tokenIn tokenOut a)
             (\<lambda>r. Inr (amount r))))"
  using linear_find_member[OF assms(1)] linear_find_member[OF assms(2)]
  unfolding LinearPool_getLimitAmountSwap_def by auto

text \<open>
  Claim C5, as stated, fails for the stable pool, whose limits are a quotient of a balance
  and a rate and evaluate no swap: in the example pool the given-out limit for B (balance
  \<open>5000 * 10^18\<close>, rate 2) is \<open>2475 * 10^18\<close>, not the 99 per cent \<open>4950 * 10^18\<close> of the
  balance, and the given-in limit is \<open>330 * 10^18\<close>, from the balance and the rate of the
  input token A.
\<close>

theorem C5_stable_limit_counterexample:
  "stable_member ex_heap1 ex_pool ex_tokenA \<and> stable_member ex_heap1 ex_pool ex_tokenB \<and>
   fst (StablePool_getLimitAmountSwap ex_pool ex_tokenA ex_tokenB GivenOut ex_heap1)
     = Inr (2475 * 10 ^ 18) \<and>
   bigint_div (stable_held ex_heap1 ex_pool ex_tokenB * ALMOST_ONE) ONE = Inr (4950 * 10 ^ 18) \<and>
   fst (StablePool_getLimitAmountSwap ex_pool ex_tokenA ex_tokenB GivenIn ex_heap1)
     = Inr (330 * 10 ^ 18)"
  unfolding StablePool_getLimitAmountSwap_def stable_member_def stable_held_def
  by (simp add: find_js_def ALMOST_ONE_def bigint_div_def trunc_div_def ONE_def ex_defs
      Token_def)

text \<open>
  Claim C5, amended. For a linear pool and two member tokens: the given-in limit is the
  input amount that \<open>swapGivenOut\<close> returns at 99 per cent of the balance of the output
  token when the output token is not the pool's liquidity token, and \<open>MAX_TOKEN_BALANCE\<close>
  when it is; the given-out limit is 99 per cent of the balance of the output token, and ten
  times the balance for the liquidity token. For a stable pool and two member tokens the
  given-out limit is the balance of the output token times 0.99 divided by the rate of the
  output token, for the liquidity token too.
\<close>

theorem C5_limit_amounts:
  "(stable_member h p tokenIn \<and> stable_member h p tokenOut \<longrightarrow>
      fst (StablePool_getLimitAmountSwap p tokenIn tokenOut GivenOut h) =
        bigint_div (stable_held h p tokenOut * ALMOST_ONE) (rate (stable_entry h p tokenOut))) \<and>
   (linear_member q tokenIn' \<and> linear_member q tokenOut' \<longrightarrow>
      LinearPool_getLimitAmountSwap L q tokenIn' tokenOut' GivenOut =
        (if isEqual tokenOut' (token (base (bptToken q)))
         then Inr (trunc_div (linear_held q tokenOut' * MAX_RATIO) ONE)
         else Inr (trunc_div (linear_held q tokenOut' * ALMOST_ONE) ONE)) \<and>
      LinearPool_getLimitAmountSwap L q tokenIn' tokenOut' GivenIn =
        (if isEqual tokenOut' (token (base (bptToken q))) then Inr MAX_TOKEN_BALANCE
         else bindE (fromRawAmount tokenOut'
                       (trunc_div (linear_held q tokenOut' * ALMOST_ONE) ONE))
                (\<lambda>a. bindE (LinearPool_swapGivenOut L q tokenIn' tokenOut' a)
                (\<lambda>r. Inr (amount r)))))"
  using stable_limit_GivenOut[of h p tokenIn tokenOut]
    linear_limit_GivenOut[of q tokenIn' tokenOut' L]
    linear_limit_GivenIn[of q tokenIn' tokenOut' L]
  by blast

theorem C5_limit_amounts_witness:
  "stable_member ex_heap1 ex_pool ex_tokenA \<and> stable_member ex_heap1 ex_pool ex_tokenBpt \<and>
   linear_member ex_lpool ex_tokenM \<and> linear_member ex_lpool ex_tokenW \<and>
   fst (StablePool_getLimitAmountSwap ex_pool ex_tokenA ex_tokenBpt GivenOut ex_heap1) =
     bigint_div (stable_held ex_heap1 ex_pool ex_tokenBpt * ALMOST_ONE)
       (rate (stable_entry ex_heap1 ex_pool ex_tokenBpt)) \<and>
   LinearPool_getLimitAmountSwap ex_lmath ex_lpool ex_tokenM ex_tokenW GivenOut =
     (if isEqual ex_tokenW (token (base (bptToken ex_lpool)))
      then Inr (trunc_div (linear_held ex_lpool ex_tokenW * MAX_RATIO) ONE)
      else Inr (trunc_div (linear_held ex_lpool ex_tokenW * ALMOST_ONE) ONE)) \<and>
   LinearPool_getLimitAmountSwap ex_lmath ex_lpool ex_tokenM ex_tokenW GivenIn =
     (if isEqual ex_tokenW (token (base (bptToken ex_lpool))) then Inr MAX_TOKEN_BALANCE
      else bindE (fromRawAmount ex_tokenW
                    (trunc_div (linear_held ex_lpool ex_tokenW * ALMOST_ONE) ONE))
             (\<lambda>a. bindE (LinearPool_swapGivenOut ex_lmath ex_lpool ex_tokenM ex_tokenW a)
             (\<lambda>r. Inr (amount r)))) \<and>
   LinearPool_getLimitAmountSwap ex_lmath ex_lpool ex_tokenM ex_tokenW GivenIn
     = Inr (495 * 10 ^ 17)"
proof -
  have s: "stable_member ex_heap1 ex_pool ex_tokenA \<and> stable_member ex_heap1 ex_pool ex_tokenBpt"
    by (simp add: stable_member_def ex_defs Token_def)
  have l: "linear_member ex_lpool ex_tokenM \<and> linear_member ex_lpool ex_tokenW"
    by (simp add: linear_member_def linear_tokens_def ex_defs Token_def)
  have v: "LinearPool_getLimitAmountSwap ex_lmath ex_lpool ex_tokenM ex_tokenW GivenIn
     = Inr (495 * 10 ^ 17)"
    unfolding LinearPool_getLimitAmountSwap_def LinearPool_swapGivenOut_def
      mainTokenInForExactWrappedOut_def
    by (simp add: find_js_def ALMOST_ONE_def bigint_div_def ONE_def ex_defs Token_def
        linear_tokens_def isEqual_def amount_defs fromRawAmount_def amount_at_def ex_lmath_def)
  note T = C5_limit_amounts[of ex_heap1 ex_pool ex_tokenA ex_tokenBpt ex_lpool ex_tokenM
      ex_tokenW ex_lmath]
  note k1 = T[THEN conjunct1, rule_format, OF s]
  note k2 = T[THEN conjunct2, rule_format, OF l]
  show ?thesis
    by (intro conjI s[THEN conjunct1] s[THEN conjunct2] l[THEN conjunct1] l[THEN conjunct2]
        k1 k2[THEN conjunct1] k2[THEN conjunct2] v)
qed

section \<open>The invariant loop and its callers\<close>

lemma converged_at_0: "converged_at f D 0 \<longleftrightarrow> \<bar>f D - D\<bar> \<le> 1"
  by (simp add: converged_at_def)

lemma converged_at_shift: "converged_at f (f D) k \<longleftrightarrow> converged_at f D (Suc k)"
  by (simp add: converged_at_def funpow_swap1)

lemma all_less_Suc_shift: "(\<forall>k<Suc n. P k) \<longleftrightarrow> P 0 \<and> (\<forall>k<n. P (Suc k))"
  by (metis less_Suc_eq_0_disj Suc_less_eq zero_less_Suc)

lemma ex_less_Suc_shift: "(\<exists>k<Suc n. P k) \<longleftrightarrow> P 0 \<or> (\<exists>k<n. P (Suc k))"
  by (metis less_Suc_eq_0_disj Suc_less_eq zero_less_Suc)

lemma newton_loop_Inl:
  "newton_loop f n D = Inl e \<longleftrightarrow> e = InvariantDidNotConverge \<and> (\<forall>k<n. \<not> converged_at f D k)"
proof (induction n arbitrary: D)
  case 0
  then show ?case by auto
next
  case (Suc n)
  show ?case
    unfolding all_less_Suc_shift
    by (simp add: Let_def Suc.IH converged_at_0 converged_at_shift)
qed

lemma newton_loop_Inr:
  "newton_loop f n D = Inr d \<longleftrightarrow>
     (\<exists>k<n. converged_at f D k \<and> (\<forall>j<k. \<not> converged_at f D j) \<and> d = (f ^^ Suc k) D)"
proof (induction n arbitrary: D)
  case 0
  then show ?case by simp
next
  case (Suc n)
  show ?case
  proof (cases "\<bar>f D - D\<bar> \<le> 1")
    case True
    then have c0: "converged_at f D 0" by (simp add: converged_at_0)
    have "(\<exists>k<Suc n. converged_at f D k \<and> (\<forall>j<k. \<not> converged_at f D j) \<and> d = (f ^^ Suc k) D)
          \<longleftrightarrow> d = f D"
    proof
      assume "\<exists>k<Suc n. converged_at f D k \<and> (\<forall>j<k. \<not> converged_at f D j) \<and> d = (f ^^ Suc k) D"
      then obtain k where k: "(\<forall>j<k. \<not> converged_at f D j)" "d = (f ^^ Suc k) D" by blast
      with c0 have "k = 0" by (cases k) auto
      with k show "d = f D" by simp
    next
      assume "d = f D"
      with c0 show "\<exists>k<Suc n. converged_at f D k \<and> (\<forall>j<k. \<not> converged_at f D j) \<and> d = (f ^^ Suc k) D"
        by (intro exI[of _ 0]) simp
    qed
    with True show ?thesis by (auto simp: Let_def)
  next
    case False
    then have c0: "\<not> converged_at f D 0" by (simp add: converged_at_0)
    have "(\<exists>k<Suc n. converged_at f D k \<and> (\<forall>j<k. \<not> converged_at f D j) \<and> d = (f ^^ Suc k) D)
       \<longleftrightarrow> (\<exists>k<n. converged_at f (f D) k \<and> (\<forall>j<k. \<not> converged_at f (f D) j) \<and>
                  d = (f ^^ Suc k) (f D))"
      unfolding ex_less_Suc_shift all_less_Suc_shift converged_at_shift
      using c0 by (simp add: funpow_swap1)
    with False Suc.IH[of "f D"] show ?thesis by (simp add: Let_def)
  qed
qed

lemma swapGivenIn_needs_invariant:
  "fst (StablePool_swapGivenIn M p tokenIn tokenOut a h) = Inr r \<Longrightarrow>
   \<exists>d. fst (calculateInvariant M (amp p) (stable_balances h p)) = Inr d"
  unfolding StablePool_swapGivenIn_def stable_balances_def
  by (simp add: exec split: if_splits sum.splits)

lemma swapGivenOut_needs_invariant:
  "fst (StablePool_swapGivenOut M p tokenIn tokenOut a h) = Inr r \<Longrightarrow>
   \<exists>d. fst (calculateInvariant M (amp p) (stable_balances h p)) = Inr d"
  unfolding StablePool_swapGivenOut_def stable_balances_def
  by (simp add: exec split: if_splits sum.splits)

lemma swapGivenIn_propagates:
  assumes "stable_member h p tokenIn" "stable_member h p tokenOut"
    and "amount a \<le> stable_held h p tokenIn"
    and "subtractSwapFeeAmount p a = Inr b"
    and "mulDownFixed b (rate (stable_entry h p tokenIn)) = Inr c"
    and "fst (calculateInvariant M (amp p) (stable_balances h p)) = Inl e"
  shows "fst (StablePool_swapGivenIn M p tokenIn tokenOut a h) = Inl e"
  using assms stable_member_findIndex[OF assms(1)] stable_member_findIndex[OF assms(2)]
  unfolding StablePool_swapGivenIn_def stable_balances_def stable_held_def stable_entry_def
  by (simp add: exec)

lemma swapGivenOut_propagates:
  assumes "stable_member h p tokenIn" "stable_member h p tokenOut"
    and "amount a \<le> stable_held h p tokenOut"
    and "mulDownFixed a (rate (stable_entry h p tokenOut)) = Inr c"
    and "fst (calculateInvariant M (amp p) (stable_balances h p)) = Inl e"
  shows "fst (StablePool_swapGivenOut M p tokenIn tokenOut a h) = Inl e"
  using assms stable_member_findIndex[OF assms(1)] stable_member_findIndex[OF assms(2)]
  unfolding StablePool_swapGivenOut_def stable_balances_def stable_held_def stable_entry_def
  by (simp add: exec)

lemma spec_solver_fst:
  "calculateInvariant M = spec_calculateInvariant step n \<Longrightarrow>
   fst (calculateInvariant M a b) = newton_loop (step a b) n (sum_list b)"
  by (simp add: spec_calculateInvariant_def)

text \<open>
  Claim C6. The invariant solver, as the specification describes it (a loop bounded by
  \<open>n\<close> over the Newton update \<open>f\<close>), fails with \<open>InvariantDidNotConverge\<close>, and with no
  other error, exactly when no two successive iterates among the first \<open>n\<close> differ by at
  most one unit; it returns exactly when some do, and then the later iterate of the first
  such pair. For a stable pool whose math uses this solver: a swap that returns has a
  converged invariant; when the solver does not converge, a swap that passes its guards
  fails with \<open>InvariantDidNotConverge\<close>: the stable \<open>swapGivenIn\<close> and \<open>swapGivenOut\<close> neither
  catch the error nor retry.
\<close>

theorem C6_invariant_convergence:
  "(\<forall>e. newton_loop f n D = Inl e \<longleftrightarrow>
       e = InvariantDidNotConverge \<and> (\<forall>k<n. \<not> converged_at f D k)) \<and>
   (\<forall>d. newton_loop f n D = Inr d \<longleftrightarrow>
       (\<exists>k<n. converged_at f D k \<and> (\<forall>j<k. \<not> converged_at f D j) \<and> d = (f ^^ Suc k) D)) \<and>
   (calculateInvariant M = spec_calculateInvariant step n \<longrightarrow>
      (\<forall>r. fst (StablePool_swapGivenIn M p tokenIn tokenOut a h) = Inr r \<longrightarrow>
         (\<exists>k<n. converged_at (step (amp p) (stable_balances h p))
                   (sum_list (stable_balances h p)) k)) \<and>
      (\<forall>r. fst (StablePool_swapGivenOut M p tokenIn tokenOut a h) = Inr r \<longrightarrow>
         (\<exists>k<n. converged_at (step (amp p) (stable_balances h p))
                   (sum_list (stable_balances h p)) k)) \<and>
      ((\<forall>k<n. \<not> converged_at (step (amp p) (stable_balances h p))
                   (sum_list (stable_balances h p)) k) \<longrightarrow>
         (guards_in h p tokenIn tokenOut a \<longrightarrow>
            fst (StablePool_swapGivenIn M p tokenIn tokenOut a h) = Inl InvariantDidNotConverge) \<and>
         (guards_out h p tokenIn tokenOut a \<longrightarrow>
            fst (StablePool_swapGivenOut M p tokenIn tokenOut a h)
              = Inl InvariantDidNotConverge)))"
proof (intro conjI impI allI)
  fix e show "newton_loop f n D = Inl e \<longleftrightarrow>
       e = InvariantDidNotConverge \<and> (\<forall>k<n. \<not> converged_at f D k)"
    by (rule newton_loop_Inl)
next
  fix d show "newton_loop f n D = Inr d \<longleftrightarrow>
       (\<exists>k<n. converged_at f D k \<and> (\<forall>j<k. \<not> converged_at f D j) \<and> d = (f ^^ Suc k) D)"
    by (rule newton_loop_Inr)
next
  fix r
  assume M: "calculateInvariant M = spec_calculateInvariant step n"
    and "fst (StablePool_swapGivenIn M p tokenIn tokenOut a h) = Inr r"
  from swapGivenIn_needs_invariant[OF this(2)] spec_solver_fst[OF M]
  show "\<exists>k<n. converged_at (step (amp p) (stable_balances h p))
                   (sum_list (stable_balances h p)) k"
    by (auto simp: newton_loop_Inr)
next
  fix r
  assume M: "calculateInvariant M = spec_calculateInvariant step n"
    and "fst (StablePool_swapGivenOut M p tokenIn tokenOut a h) = Inr r"
  from swapGivenOut_needs_invariant[OF this(2)] spec_solver_fst[OF M]
  show "\<exists>k<n. converged_at (step (amp p) (stable_balances h p))
                   (sum_list (stable_balances h p)) k"
    by (auto simp: newton_loop_Inr)
next
  assume M: "calculateInvariant M = spec_calculateInvariant step n"
    and nc: "\<forall>k<n. \<not> converged_at (step (amp p) (stable_balances h p))
                   (sum_list (stable_balances h p)) k"
    and g: "guards_in h p tokenIn tokenOut a"
  from nc spec_solver_fst[OF M, of "amp p" "stable_balances h p"]
  have "fst (calculateInvariant M (amp p) (stable_balances h p)) = Inl InvariantDidNotConverge"
    by (simp add: newton_loop_Inl)
  with g show "fst (StablePool_swapGivenIn M p tokenIn tokenOut a h) = Inl InvariantDidNotConverge"
    unfolding guards_in_def by (blast intro: swapGivenIn_propagates)
next
  assume M: "calculateInvariant M = spec_calculateInvariant step n"
    and nc: "\<forall>k<n. \<not> converged_at (step (amp p) (stable_balances h p))
                   (sum_list (stable_balances h p)) k"
    and g: "guards_out h p tokenIn tokenOut a"
  from nc spec_solver_fst[OF M, of "amp p" "stable_balances h p"]
  have "fst (calculateInvariant M (amp p) (stable_balances h p)) = Inl InvariantDidNotConverge"
    by (simp add: newton_loop_Inl)
  with g show "fst (StablePool_swapGivenOut M p tokenIn tokenOut a h) = Inl InvariantDidNotConverge"
    unfolding guards_out_def by (blast intro: swapGivenOut_propagates)
qed

lemma never_converges: "\<not> converged_at (\<lambda>D. D + 2) D k"
  by (simp add: converged_at_def)

lemma converges_at_once: "spec_calculateInvariant (\<lambda>a b D. D) 255 a b = (Inr (sum_list b), b)"
proof -
  have n: "(255::nat) = Suc 254" by simp
  have "newton_loop (\<lambda>D. D) 255 (sum_list b) = Inr (sum_list b)"
    unfolding n newton_loop.simps by simp
  then show ?thesis by (simp add: spec_calculateInvariant_def)
qed

theorem C6_invariant_convergence_witness:
  "calculateInvariant ex_math_diverging = spec_calculateInvariant (\<lambda>a b D. D + 2) 255 \<and>
   \<not> (\<exists>k<255. converged_at (\<lambda>D. D + 2) (sum_list (stable_balances ex_heap1 ex_pool)) k) \<and>
   guards_in ex_heap1 ex_pool ex_tokenA ex_tokenB (ex_amount ex_tokenA 7) \<and>
   guards_out ex_heap1 ex_pool ex_tokenA ex_tokenB (ex_amount ex_tokenA 7) \<and>
   fst (StablePool_swapGivenIn ex_math_diverging ex_pool ex_tokenA ex_tokenB
          (ex_amount ex_tokenA 7) ex_heap1) = Inl InvariantDidNotConverge \<and>
   fst (StablePool_swapGivenOut ex_math_diverging ex_pool ex_tokenA ex_tokenB
          (ex_amount ex_tokenA 7) ex_heap1) = Inl InvariantDidNotConverge \<and>
   newton_loop (\<lambda>D. D + 2) 255 (sum_list (stable_balances ex_heap1 ex_pool))
     = Inl InvariantDidNotConverge \<and>
   calculateInvariant ex_math_converging = spec_calculateInvariant (\<lambda>a b D. D) 255 \<and>
   fst (StablePool_swapGivenIn ex_math_converging ex_pool ex_tokenA ex_tokenB
          (ex_amount ex_tokenA (10 * 10 ^ 18)) ex_heap1)
     = Inr (ex_amount ex_tokenB (14994 * 10 ^ 15)) \<and>
   (\<exists>k<255. converged_at (\<lambda>D. D) (sum_list (stable_balances ex_heap1 ex_pool)) k)"
proof -
  have m: "calculateInvariant ex_math_diverging = spec_calculateInvariant (\<lambda>a b D. D + 2) 255"
    by (simp add: ex_math_diverging_def)
  have nc: "\<forall>k<255. \<not> converged_at (\<lambda>D. D + 2) (sum_list (stable_balances ex_heap1 ex_pool)) k"
    by (simp add: never_converges)
  have gi: "guards_in ex_heap1 ex_pool ex_tokenA ex_tokenB (ex_amount ex_tokenA 7)"
    unfolding guards_in_def stable_member_def stable_held_def stable_entry_def
    by (simp add: amount_defs ex_defs Token_def)
  have go: "guards_out ex_heap1 ex_pool ex_tokenA ex_tokenB (ex_amount ex_tokenA 7)"
    unfolding guards_out_def stable_member_def stable_held_def stable_entry_def
    by (simp add: amount_defs ex_defs Token_def)
  note T = C6_invariant_convergence[of "\<lambda>D. D + 2" 255
      "sum_list (stable_balances ex_heap1 ex_pool)" ex_math_diverging "\<lambda>a b D. D + 2" ex_pool
      ex_tokenA ex_tokenB "ex_amount ex_tokenA 7" ex_heap1]
  note k0 = T[THEN conjunct1, THEN spec[where x = InvariantDidNotConverge], THEN iffD2,
      OF conjI[OF refl nc]]
  note k1 = T[THEN conjunct2, THEN conjunct2, THEN mp, OF m, THEN conjunct2,
      THEN conjunct2, THEN mp, OF nc]
  note k2 = k1[THEN conjunct1, THEN mp, OF gi]
  note k3 = k1[THEN conjunct2, THEN mp, OF go]
  have m': "calculateInvariant ex_math_converging = spec_calculateInvariant (\<lambda>a b D. D) 255"
    by (simp add: ex_math_converging_def)
  have v: "fst (StablePool_swapGivenIn ex_math_converging ex_pool ex_tokenA ex_tokenB
          (ex_amount ex_tokenA (10 * 10 ^ 18)) ex_heap1)
     = Inr (ex_amount ex_tokenB (14994 * 10 ^ 15))"
    unfolding StablePool_swapGivenIn_def
    by (simp add: exec amount_defs ex_defs ex_math_def ex_math_converging_def
        converges_at_once token_at_def isEqual_def Token_def)
  note T' = C6_invariant_convergence[of "\<lambda>D. D" 255
      "sum_list (stable_balances ex_heap1 ex_pool)" ex_math_converging "\<lambda>a b D. D" ex_pool
      ex_tokenA ex_tokenB "ex_amount ex_tokenA (10 * 10 ^ 18)" ex_heap1]
  note k4 = T'[THEN conjunct2, THEN conjunct2, THEN mp, OF m', THEN conjunct1,
      THEN spec, THEN mp, OF v]
  have nc': "\<not> (\<exists>k<255. converged_at (\<lambda>D. D + 2)
      (sum_list (stable_balances ex_heap1 ex_pool)) k)"
    by (simp add: never_converges)
  show ?thesis
    by (intro conjI m nc' gi go k0 k2 k3 m' v k4)
qed

section \<open>Building a pool from a raw record\<close>

lemma mapE_Inr: "mapE f xs = Inr ys \<Longrightarrow> list_all2 (\<lambda>x y. f x = Inr y) xs ys"
  by (induction xs arbitrary: ys) (auto simp: bindE_eq_Inr)

lemma mapE_fails: "\<exists>x\<in>set xs. isl (f x) \<Longrightarrow> isl (mapE f xs)"
proof (induction xs)
  case Nil
  then show ?case by simp
next
  case (Cons a xs)
  then show ?case by (cases "f a"; cases "mapE f xs") auto
qed

lemma stable_fromRawPool_Inr:
  assumes "StablePool_fromRawPool U pool h = (Inr p, h')"
  shows "\<exists>pts a shares fee addr.
      mapE (stable_poolToken U (raw_address pool)) (sorted_raw h (raw_tokens pool)) = Inr pts \<and>
      BigInt U (raw_amp pool) = Inr a \<and>
      unsafeFastParseEther U (raw_totalShares pool) = Inr shares \<and>
      unsafeFastParseEther U (raw_swapFee pool) = Inr fee \<and>
      getPoolAddress (raw_id pool) = Inr addr \<and>
      p = \<lparr>sp_id = raw_id pool, sp_address = addr, amp = a * 1000, swapFee = fee,
           tokens = fresh h, tokensNoBpt = Suc (fresh h), totalShares = shares,
           bptIndex = findIndex (\<lambda>t. address (token (base t)) = addr) pts\<rparr> \<and>
      h' = h\<lparr>raw_arrays := (raw_arrays h)(raw_tokens pool := sorted_raw h (raw_tokens pool)),
             tok_arrays := (tok_arrays h)
               (fresh h := pts,
                Suc (fresh h) := splice1 pts (findIndex (\<lambda>t. address (token (base t)) = addr) pts)),
             fresh := Suc (Suc (fresh h))\<rparr>"
  using assms
  unfolding StablePool_fromRawPool_def new_StablePool_def sorted_raw_def
  by (auto simp: bindP_def sort_by_index_def get_raw_array_def new_tok_array_def
      get_tok_array_def copy_tok_array_def splice_tok_array_def
      split: sum.splits prod.splits)

lemma stable_fromRawPool_fails:
  assumes "mapE (stable_poolToken U (raw_address pool)) (sorted_raw h (raw_tokens pool)) = Inl e"
  shows "fst (StablePool_fromRawPool U pool h) = Inl e"
  using assms
  unfolding StablePool_fromRawPool_def sorted_raw_def
  by (simp add: bindP_def sort_by_index_def get_raw_array_def)

lemma stable_poolToken_no_rate:
  "priceRate t = None \<or> priceRate t = Some [] \<Longrightarrow> stable_poolToken U a t = Inl MissingPriceRate"
  by (auto simp: stable_poolToken_def)

lemma stable_poolToken_Inr_rate:
  "stable_poolToken U a t = Inr y \<Longrightarrow> priceRate t \<noteq> None \<and> priceRate t \<noteq> Some []"
  by (auto simp: stable_poolToken_def split: if_splits)


lemma fromRawPool_missing_rate_fails:
  assumes "\<exists>t\<in>set (raw_arrays h (raw_tokens pool)). priceRate t = None \<or> priceRate t = Some []"
  shows "isl (fst (StablePool_fromRawPool U pool h))"
proof -
  from assms have "\<exists>t\<in>set (sorted_raw h (raw_tokens pool)).
      isl (stable_poolToken U (raw_address pool) t)"
    by (auto simp: sorted_raw_def stable_poolToken_no_rate intro!: bexI)
  then have "isl (mapE (stable_poolToken U (raw_address pool)) (sorted_raw h (raw_tokens pool)))"
    by (rule mapE_fails)
  then obtain e where
    "mapE (stable_poolToken U (raw_address pool)) (sorted_raw h (raw_tokens pool)) = Inl e"
    by (auto simp: isl_def)
  from stable_fromRawPool_fails[OF this] show ?thesis by simp
qed

lemma fromRawPool_rates_and_amp:
  assumes "StablePool_fromRawPool U pool h = (Inr p, h')"
  shows "(\<forall>t\<in>set (raw_arrays h (raw_tokens pool)). priceRate t \<noteq> None \<and> priceRate t \<noteq> Some []) \<and>
         (\<exists>a. BigInt U (raw_amp pool) = Inr a \<and> amp p = a * 1000)"
proof -
  from stable_fromRawPool_Inr[OF assms] obtain pts a where
    m: "mapE (stable_poolToken U (raw_address pool)) (sorted_raw h (raw_tokens pool)) = Inr pts"
    and a: "BigInt U (raw_amp pool) = Inr a" "amp p = a * 1000"
    by auto
  have "priceRate t \<noteq> None \<and> priceRate t \<noteq> Some []" if "t \<in> set (raw_arrays h (raw_tokens pool))" for t
  proof -
    from that have "t \<in> set (sorted_raw h (raw_tokens pool))" by (simp add: sorted_raw_def)
    with mapE_Inr[OF m] obtain y where "stable_poolToken U (raw_address pool) t = Inr y"
      by (auto simp: list_all2_conv_all_nth in_set_conv_nth)
    then show ?thesis by (rule stable_poolToken_Inr_rate)
  qed
  with a show ?thesis by blast
qed

text \<open>
  Claim C10. \<open>StablePool.fromRawPool\<close> fails for every raw pool record with a token entry
  whose price rate is missing or empty, the entry of the pool's own liquidity token
  included (the test comes before the entry is told apart); when it returns, every entry
  had a price rate and the amplification parameter of the pool is the record's \<open>amp\<close>
  times 1000.
\<close>

theorem C10_fromRawPool_price_rate_and_amp:
  "((\<exists>t\<in>set (raw_arrays h (raw_tokens pool)). priceRate t = None \<or> priceRate t = Some []) \<longrightarrow>
      isl (fst (StablePool_fromRawPool U pool h))) \<and>
   (\<forall>p h'. StablePool_fromRawPool U pool h = (Inr p, h') \<longrightarrow>
      (\<forall>t\<in>set (raw_arrays h (raw_tokens pool)).
         priceRate t \<noteq> None \<and> priceRate t \<noteq> Some []) \<and>
      (\<exists>a. BigInt U (raw_amp pool) = Inr a \<and> amp p = a * 1000))"
  using fromRawPool_missing_rate_fails[of h pool U] fromRawPool_rates_and_amp[of U pool h]
  by blast

theorem C10_fromRawPool_price_rate_and_amp_witness:
  "(\<exists>t\<in>set (raw_arrays ex_heap_norate (raw_tokens ex_raw)).
      r_address t = raw_address ex_raw \<and> (priceRate t = None \<or> priceRate t = Some [])) \<and>
   isl (fst (StablePool_fromRawPool ex_utils ex_raw ex_heap_norate)) \<and>
   StablePool_fromRawPool ex_utils ex_raw ex_heap0 = (Inr ex_pool, ex_heap1) \<and>
   list_all (\<lambda>t. priceRate t \<noteq> None \<and> priceRate t \<noteq> Some [])
     (raw_arrays ex_heap0 (raw_tokens ex_raw)) \<and>
   BigInt ex_utils (raw_amp ex_raw) = Inr 1000 \<and> amp ex_pool = 1000 * 1000"
proof -
  have n: "\<exists>t\<in>set (raw_arrays ex_heap_norate (raw_tokens ex_raw)).
      r_address t = raw_address ex_raw \<and> (priceRate t = None \<or> priceRate t = Some [])"
    by (simp add: ex_heap_norate_def ex_defs)
  then have n': "\<exists>t\<in>set (raw_arrays ex_heap_norate (raw_tokens ex_raw)).
      priceRate t = None \<or> priceRate t = Some []"
    by blast
  note T = C10_fromRawPool_price_rate_and_amp[of ex_heap_norate ex_raw ex_utils]
  note k1 = T[THEN conjunct1, THEN mp, OF n']
  note T' = C10_fromRawPool_price_rate_and_amp[of ex_heap0 ex_raw ex_utils]
  note k2 = T'[THEN conjunct2, THEN spec, THEN spec, THEN mp, OF ex_fromRawPool]
  have a: "BigInt ex_utils (raw_amp ex_raw) = Inr 1000" "amp ex_pool = 1000 * 1000"
    by (simp_all add: parse_decimal_def digit_val_def ex_defs)
  show ?thesis
    by (intro conjI n k1 ex_fromRawPool k2[THEN conjunct1, folded list_all_iff] a)
qed

section \<open>The liquidity token and its virtual balance\<close>




lemma linear_fromRawPool_Inr:
  assumes "LinearPool_fromRawPool U pool h = (Inr p, h')"
  shows "h' = h\<lparr>raw_arrays := (raw_arrays h)(raw_tokens pool := sorted_raw h (raw_tokens pool))\<rparr> \<and>
     (\<exists>mT wT bT mA wA bA.
        raw_at (sorted_raw h (raw_tokens pool)) (mainIndex pool) = Inr mT \<and>
        raw_at (sorted_raw h (raw_tokens pool)) (wrappedIndex pool) = Inr wT \<and>
        raw_at (sorted_raw h (raw_tokens pool))
          (findIndex (\<lambda>t. r_address t = raw_address pool) (sorted_raw h (raw_tokens pool))) = Inr bT \<and>
        mainToken p = mA \<and> address (token mA) = r_address mT \<and>
        base (wrappedToken p) = wA \<and> address (token wA) = r_address wT \<and>
        bptToken p = BPT bA WAD (MAX_TOKEN_BALANCE - amount bA) \<and>
        address (token bA) = r_address bT)"
  using assms
  unfolding LinearPool_fromRawPool_def sorted_raw_def
  apply (simp add: bindP_def sort_by_index_def get_raw_array_def bindE_eq_Inr)
  apply (auto simp: new_LinearPool_def new_linear_BPT_def new_WrappedToken_def
      fromHumanAmount_def new_TokenAmount_def Token_def bindE_eq_Inr split: if_splits)
  done

lemma raw_at_Inr: "raw_at ts i = Inr t \<Longrightarrow> 0 \<le> i \<and> i < int (length ts) \<and> t = ts ! nat i"
  by (auto simp: raw_at_def split: if_splits)

lemma linear_bpt_member:
  assumes "LinearPool_fromRawPool U pool h = (Inr p, h')"
  shows "base (bptToken p) \<in> set (linear_tokens p) \<and>
         (\<exists>b. bptToken p = BPT b WAD (MAX_TOKEN_BALANCE - amount b) \<and>
              address (token b) = raw_address pool)"
proof -
  from linear_fromRawPool_Inr[OF assms] obtain bT bA where
    r: "raw_at (sorted_raw h (raw_tokens pool))
          (findIndex (\<lambda>t. r_address t = raw_address pool) (sorted_raw h (raw_tokens pool))) = Inr bT"
    and b: "bptToken p = BPT bA WAD (MAX_TOKEN_BALANCE - amount bA)" "address (token bA) = r_address bT"
    by blast
  from raw_at_Inr[OF r] findIndex_nth[of "\<lambda>t. r_address t = raw_address pool" "sorted_raw h (raw_tokens pool)"]
  have "r_address bT = raw_address pool" by simp
  with b show ?thesis by (simp add: linear_tokens_def)
qed



section \<open>What the operations change in the store\<close>

lemma swapGivenIn_frame:
  assumes "StablePool_swapGivenIn M p tokenIn tokenOut a h = (res, h')"
  shows "raw_arrays h' = raw_arrays h \<and> tok_arrays h' = tok_arrays h \<and>
         (\<forall>r<fresh h. int_arrays h' r = int_arrays h r) \<and> fresh h \<le> fresh h'"
  using assms unfolding StablePool_swapGivenIn_def
  by (auto simp: exec split: if_splits sum.splits)

lemma swapGivenOut_frame:
  assumes "StablePool_swapGivenOut M p tokenIn tokenOut a h = (res, h')"
  shows "raw_arrays h' = raw_arrays h \<and> tok_arrays h' = tok_arrays h \<and>
         (\<forall>r<fresh h. int_arrays h' r = int_arrays h r) \<and> fresh h \<le> fresh h'"
  using assms unfolding StablePool_swapGivenOut_def
  by (auto simp: exec split: if_splits sum.splits)

lemma getLimitAmountSwap_frame:
  "snd (StablePool_getLimitAmountSwap p tokenIn tokenOut k h) = h"
  unfolding StablePool_getLimitAmountSwap_def
  by (simp split: option.splits SwapKind.splits)

lemma getNormalizedLiquidity_frame:
  "snd (StablePool_getNormalizedLiquidity p tokenIn tokenOut h) = h"
  unfolding StablePool_getNormalizedLiquidity_def
  by (simp split: option.splits)

lemma run_query_frame:
  "raw_arrays (run_query M p q h) = raw_arrays h \<and>
   tok_arrays (run_query M p q h) = tok_arrays h \<and>
   (\<forall>r<fresh h. int_arrays (run_query M p q h) r = int_arrays h r) \<and>
   fresh h \<le> fresh (run_query M p q h)"
proof (cases q)
  case (SwapGivenIn x y a)
  then show ?thesis
    using swapGivenIn_frame[OF surjective_pairing, of M p x y a h] by simp
next
  case (SwapGivenOut x y a)
  then show ?thesis
    using swapGivenOut_frame[OF surjective_pairing, of M p x y a h] by simp
next
  case (LimitAmountSwap x y k)
  then show ?thesis by (simp add: getLimitAmountSwap_frame)
next
  case (NormalizedLiquidity x y)
  then show ?thesis by (simp add: getNormalizedLiquidity_frame)
qed

lemma run_queries_frame:
  "raw_arrays (run_queries M p qs h) = raw_arrays h \<and>
   tok_arrays (run_queries M p qs h) = tok_arrays h \<and>
   (\<forall>r<fresh h. int_arrays (run_queries M p qs h) r = int_arrays h r) \<and>
   fresh h \<le> fresh (run_queries M p qs h)"
proof (induction qs arbitrary: h)
  case Nil
  then show ?case by simp
next
  case (Cons q qs)
  from Cons.IH[of "run_query M p q h"] run_query_frame[of M p q h]
  show ?case by auto
qed

lemma new_StablePool_frame:
  assumes "new_StablePool pid a sfee toks shares h = (res, h')"
  shows "raw_arrays h' = raw_arrays h \<and> int_arrays h' = int_arrays h \<and>
         (\<forall>r. r \<noteq> fresh h \<longrightarrow> tok_arrays h' r = tok_arrays h r) \<and>
         (\<forall>p. res = Inr p \<longrightarrow>
            tokens p = toks \<and> tokensNoBpt p = fresh h \<and>
            tok_arrays h' (fresh h) = splice1 (tok_arrays h toks) (bptIndex p) \<and>
            bptIndex p = findIndex (\<lambda>t. address (token (base t)) = sp_address p) (tok_arrays h toks))"
  using assms unfolding new_StablePool_def
  by (auto simp: bindP_def new_tok_array_def get_tok_array_def copy_tok_array_def
      splice_tok_array_def split: sum.splits)

lemma fromRawPool_frame:
  assumes "StablePool_fromRawPool U pool h = (res, h')"
  shows "raw_arrays h' = (raw_arrays h)(raw_tokens pool := sorted_raw h (raw_tokens pool)) \<and>
         int_arrays h' = int_arrays h \<and>
         (\<forall>r<fresh h. tok_arrays h' r = tok_arrays h r)"
  using assms unfolding StablePool_fromRawPool_def new_StablePool_def sorted_raw_def
  by (auto simp: bindP_def sort_by_index_def get_raw_array_def new_tok_array_def
      get_tok_array_def copy_tok_array_def splice_tok_array_def split: sum.splits)

section \<open>The order of the token list\<close>

lemma stable_poolToken_address:
  "stable_poolToken U a t = Inr y \<Longrightarrow> address (token (base y)) = r_address t"
  by (auto simp: stable_poolToken_def fromHumanAmount_def new_BPT_def new_StablePoolToken_def
      new_TokenAmount_def Token_def bindE_eq_Inr split: if_splits)

lemma list_all2_map_eq:
  "list_all2 (\<lambda>x y. g y = f x) xs ys \<Longrightarrow> map g ys = map f xs"
  by (induction rule: list_all2_induct) auto

lemma stable_token_order:
  assumes "StablePool_fromRawPool U pool h = (Inr p, h')"
  shows "map (\<lambda>t. address (token (base t))) (tok_arrays h' (tokens p)) =
         map r_address (sorted_raw h (raw_tokens pool))"
proof -
  from stable_fromRawPool_Inr[OF assms] obtain pts where
    m: "mapE (stable_poolToken U (raw_address pool)) (sorted_raw h (raw_tokens pool)) = Inr pts"
    and t: "tok_arrays h' (tokens p) = pts"
    by auto
  from mapE_Inr[OF m]
  have "list_all2 (\<lambda>x y. address (token (base y)) = r_address x)
          (sorted_raw h (raw_tokens pool)) pts"
    by (rule list_all2_mono) (auto dest: stable_poolToken_address)
  from list_all2_map_eq[OF this] t show ?thesis by simp
qed

lemma sorted_raw_sorted:
  "sorted (map index (sorted_raw h r)) \<and> length (sorted_raw h r) = length (raw_arrays h r) \<and>
   (\<forall>k. filter (\<lambda>t. index t = k) (sorted_raw h r) = filter (\<lambda>t. index t = k) (raw_arrays h r))"
  by (simp add: sorted_raw_def sort_key_stable)

lemma linear_token_order:
  assumes "LinearPool_fromRawPool U pool h = (Inr p, h')"
  shows "map (\<lambda>t. address (token t)) (linear_tokens p) =
           [r_address (sorted_raw h (raw_tokens pool) ! nat (mainIndex pool)),
            r_address (sorted_raw h (raw_tokens pool) ! nat (wrappedIndex pool)),
            raw_address pool]"
proof -
  from linear_fromRawPool_Inr[OF assms] obtain mT wT bT bA where
    r: "raw_at (sorted_raw h (raw_tokens pool)) (mainIndex pool) = Inr mT"
       "raw_at (sorted_raw h (raw_tokens pool)) (wrappedIndex pool) = Inr wT"
    and a: "address (token (mainToken p)) = r_address mT"
       "address (token (base (wrappedToken p))) = r_address wT"
    by blast
  from linear_bpt_member[OF assms] have "address (token (base (bptToken p))) = raw_address pool"
    by auto
  with raw_at_Inr[OF r(1)] raw_at_Inr[OF r(2)] a show ?thesis
    by (simp add: linear_tokens_def)
qed

text \<open>
  Claim C8, as stated, fails for the linear pool, whose token list is always main, wrapped,
  liquidity token: the example record has its wrapped token at index 0 and its main token
  at index 1, and the pool built from it lists the main token first.
\<close>

theorem C8_linear_token_order_counterexample:
  "LinearPool_fromRawPool ex_utils ex_rawL ex_heapL = (Inr ex_lpool, ex_heapL) \<and>
   index (sorted_raw ex_heapL (raw_tokens ex_rawL) ! 0) = 0 \<and>
   r_address (sorted_raw ex_heapL (raw_tokens ex_rawL) ! 0) = ''0xW'' \<and>
   index (sorted_raw ex_heapL (raw_tokens ex_rawL) ! 1) = 1 \<and>
   r_address (sorted_raw ex_heapL (raw_tokens ex_rawL) ! 1) = ''0xM'' \<and>
   address (token (linear_tokens ex_lpool ! 0)) = ''0xM'' \<and>
   address (token (linear_tokens ex_lpool ! 1)) = ''0xW''"
  using ex_linear_fromRawPool
  by (simp add: sorted_raw_def linear_tokens_def ex_defs Token_def)

text \<open>
  Claim C8, amended. The stable pool built by \<open>fromRawPool\<close> holds its tokens in ascending
  order of the record's \<open>index\<close> field: its token list follows, entry by entry, the record's
  entries sorted stably by \<open>index\<close>; and no sequence of swaps, limit queries and liquidity
  queries changes a token array, whatever the calls return and whatever the math does. The
  linear pool built by \<open>fromRawPool\<close> lists the entries that the sorted record has at
  \<open>mainIndex\<close> and at \<open>wrappedIndex\<close> and the entry of the pool's own address, in this
  order.
\<close>

theorem C8_token_order:
  "(\<forall>p h'. StablePool_fromRawPool U pool h = (Inr p, h') \<longrightarrow>
      sorted (map index (sorted_raw h (raw_tokens pool))) \<and>
      length (sorted_raw h (raw_tokens pool)) = length (raw_arrays h (raw_tokens pool)) \<and>
      (\<forall>k. filter (\<lambda>t. index t = k) (sorted_raw h (raw_tokens pool)) =
           filter (\<lambda>t. index t = k) (raw_arrays h (raw_tokens pool))) \<and>
      map (\<lambda>t. address (token (base t))) (tok_arrays h' (tokens p)) =
        map r_address (sorted_raw h (raw_tokens pool)) \<and>
      (\<forall>M qs. tok_arrays (run_queries M p qs h') = tok_arrays h')) \<and>
   (\<forall>p h'. LinearPool_fromRawPool U lpool hl = (Inr p, h') \<longrightarrow>
      map (\<lambda>t. address (token t)) (linear_tokens p) =
        [r_address (sorted_raw hl (raw_tokens lpool) ! nat (mainIndex lpool)),
         r_address (sorted_raw hl (raw_tokens lpool) ! nat (wrappedIndex lpool)),
         raw_address lpool])"
  using stable_token_order[of U pool h] sorted_raw_sorted[of h "raw_tokens pool"]
    run_queries_frame linear_token_order[of U lpool hl]
  by blast

theorem C8_token_order_witness:
  "StablePool_fromRawPool ex_utils ex_raw ex_heap0 = (Inr ex_pool, ex_heap1) \<and>
   sorted (map index (sorted_raw ex_heap0 (raw_tokens ex_raw))) \<and>
   map (\<lambda>t. address (token (base t))) (tok_arrays ex_heap1 (tokens ex_pool)) =
     map r_address (sorted_raw ex_heap0 (raw_tokens ex_raw)) \<and>
   map r_address (sorted_raw ex_heap0 (raw_tokens ex_raw)) = [ex_address, ''0xA'', ''0xB''] \<and>
   tok_arrays (run_queries ex_math_scribbling ex_pool ex_queries ex_heap1) = tok_arrays ex_heap1 \<and>
   LinearPool_fromRawPool ex_utils ex_rawL ex_heapL = (Inr ex_lpool, ex_heapL) \<and>
   map (\<lambda>t. address (token t)) (linear_tokens ex_lpool) =
     [r_address (sorted_raw ex_heapL (raw_tokens ex_rawL) ! nat (mainIndex ex_rawL)),
      r_address (sorted_raw ex_heapL (raw_tokens ex_rawL) ! nat (wrappedIndex ex_rawL)),
      raw_address ex_rawL]"
proof -
  note T = C8_token_order[of ex_utils ex_raw ex_heap0 ex_rawL ex_heapL]
  note k = T[THEN conjunct1, THEN spec, THEN spec, THEN mp, OF ex_fromRawPool]
  note k1 = k[THEN conjunct1]
  note k2 = k[THEN conjunct2, THEN conjunct2, THEN conjunct2, THEN conjunct1]
  note k3 = k[THEN conjunct2, THEN conjunct2, THEN conjunct2, THEN conjunct2, THEN spec,
      THEN spec]
  note k4 = T[THEN conjunct2, THEN spec, THEN spec, THEN mp, OF ex_linear_fromRawPool]
  have v: "map r_address (sorted_raw ex_heap0 (raw_tokens ex_raw)) = [ex_address, ''0xA'', ''0xB'']"
    by (simp add: sorted_raw_def ex_defs)
  show ?thesis
    by (intro conjI ex_fromRawPool k1 k2 v k3 ex_linear_fromRawPool k4)
qed

section \<open>Arrays of the caller\<close>

lemma ex_new_StablePool:
  "new_StablePool ex_id 1000000 (4 * 10 ^ 14) 1 (1500 * 10 ^ 18) ex_heap_mid
     = (Inr ex_pool, ex_heap1)"
  unfolding new_StablePool_def
  by (simp add: bindP_def new_tok_array_def get_tok_array_def copy_tok_array_def
      splice_tok_array_def splice1_def getPoolAddress_def ex_heap_mid_def ex_defs Token_def
      fun_eq_iff)

text \<open>
  Claim C9, as stated, fails: \<open>fromRawPool\<close> sorts the token array of the raw pool record
  in place (\<^verbatim>\<open>pool.tokens.sort(...)\<close>). After the call on the example record, whose entries
  come in the order B, liquidity token, A, the record's array holds them in the order
  liquidity token, A, B.
\<close>

theorem C9_fromRawPool_sorts_record_counterexample:
  "raw_arrays ex_heap0 (raw_tokens ex_raw) = [ex_rawB, ex_rawBpt, ex_rawA] \<and>
   raw_arrays (snd (StablePool_fromRawPool ex_utils ex_raw ex_heap0)) (raw_tokens ex_raw)
     = [ex_rawBpt, ex_rawA, ex_rawB] \<and>
   [ex_rawB, ex_rawBpt, ex_rawA] \<noteq> [ex_rawBpt, ex_rawA, ex_rawB]"
  by (simp add: ex_fromRawPool) (simp add: ex_defs)

text \<open>
  Claim C9, amended. The constructor of the stable pool changes no array that exists when
  it is called, the array of tokens it is passed included: the list without the liquidity
  token is a new array, holding the contents of the passed array with the entry at the
  liquidity token's index removed. \<open>fromRawPool\<close> changes no existing array but the token
  array of the raw pool record, which it sorts in place by \<open>index\<close>. A swap changes no
  existing array, whatever the math routines write to the arrays they are passed: these are
  arrays the swap has made itself.
\<close>

theorem C9_arrays_unchanged:
  "(\<forall>res h'. new_StablePool pid a sfee toks shares h = (res, h') \<longrightarrow>
      raw_arrays h' = raw_arrays h \<and> int_arrays h' = int_arrays h \<and>
      (\<forall>r. r \<noteq> fresh h \<longrightarrow> tok_arrays h' r = tok_arrays h r) \<and>
      (\<forall>p. res = Inr p \<longrightarrow>
         tokens p = toks \<and> tokensNoBpt p = fresh h \<and>
         tok_arrays h' (fresh h) = splice1 (tok_arrays h toks) (bptIndex p) \<and>
         bptIndex p =
           findIndex (\<lambda>t. address (token (base t)) = sp_address p) (tok_arrays h toks))) \<and>
   (\<forall>res h'. StablePool_fromRawPool U pool h1 = (res, h') \<longrightarrow>
      raw_arrays h' = (raw_arrays h1)(raw_tokens pool := sorted_raw h1 (raw_tokens pool)) \<and>
      int_arrays h' = int_arrays h1 \<and>
      (\<forall>r<fresh h1. tok_arrays h' r = tok_arrays h1 r)) \<and>
   (\<forall>res h'. StablePool_swapGivenIn M p tokenIn tokenOut x h2 = (res, h') \<longrightarrow>
      raw_arrays h' = raw_arrays h2 \<and> tok_arrays h' = tok_arrays h2 \<and>
      (\<forall>r<fresh h2. int_arrays h' r = int_arrays h2 r) \<and> fresh h2 \<le> fresh h') \<and>
   (\<forall>res h'. StablePool_swapGivenOut M p tokenIn tokenOut x h2 = (res, h') \<longrightarrow>
      raw_arrays h' = raw_arrays h2 \<and> tok_arrays h' = tok_arrays h2 \<and>
      (\<forall>r<fresh h2. int_arrays h' r = int_arrays h2 r) \<and> fresh h2 \<le> fresh h')"
  apply (intro conjI)
     apply (intro allI impI, erule new_StablePool_frame)
    apply (intro allI impI, erule fromRawPool_frame)
   apply (intro allI impI, erule swapGivenIn_frame)
  apply (intro allI impI, erule swapGivenOut_frame)
  done

theorem C9_arrays_unchanged_witness:
  "new_StablePool ex_id 1000000 (4 * 10 ^ 14) 1 (1500 * 10 ^ 18) ex_heap_mid
     = (Inr ex_pool, ex_heap1) \<and>
   1 \<noteq> fresh ex_heap_mid \<and>
   tok_arrays ex_heap1 1 = tok_arrays ex_heap_mid 1 \<and>
   tokensNoBpt ex_pool = fresh ex_heap_mid \<and>
   tok_arrays ex_heap1 (fresh ex_heap_mid) = splice1 (tok_arrays ex_heap_mid 1) (bptIndex ex_pool) \<and>
   StablePool_fromRawPool ex_utils ex_raw ex_heap0 = (Inr ex_pool, ex_heap1) \<and>
   raw_arrays ex_heap1 =
     (raw_arrays ex_heap0)(raw_tokens ex_raw := sorted_raw ex_heap0 (raw_tokens ex_raw)) \<and>
   3 < fresh ex_heap2 \<and>
   tok_arrays (snd (StablePool_swapGivenIn ex_math_scribbling ex_pool ex_tokenA ex_tokenB
       (ex_amount ex_tokenA (10 * 10 ^ 18)) ex_heap2)) = tok_arrays ex_heap2 \<and>
   int_arrays (snd (StablePool_swapGivenIn ex_math_scribbling ex_pool ex_tokenA ex_tokenB
       (ex_amount ex_tokenA (10 * 10 ^ 18)) ex_heap2)) 3 = int_arrays ex_heap2 3 \<and>
   int_arrays (snd (StablePool_swapGivenIn ex_math_scribbling ex_pool ex_tokenA ex_tokenB
       (ex_amount ex_tokenA (10 * 10 ^ 18)) ex_heap2)) 4 = [0, 0] \<and>
   tok_arrays (snd (StablePool_swapGivenOut ex_math_scribbling ex_pool ex_tokenA ex_tokenB
       (ex_amount ex_tokenB 2) ex_heap2)) = tok_arrays ex_heap2 \<and>
   int_arrays (snd (StablePool_swapGivenOut ex_math_scribbling ex_pool ex_tokenA ex_tokenB
       (ex_amount ex_tokenB 2) ex_heap2)) 3 = int_arrays ex_heap2 3"
proof -
  note T = C9_arrays_unchanged[of ex_id 1000000 "4 * 10 ^ 14" 1 "1500 * 10 ^ 18" ex_heap_mid
      ex_utils ex_raw ex_heap0 ex_math_scribbling ex_pool ex_tokenA ex_tokenB
      "ex_amount ex_tokenA (10 * 10 ^ 18)" ex_heap2]
  note T' = C9_arrays_unchanged[of ex_id 1000000 "4 * 10 ^ 14" 1 "1500 * 10 ^ 18" ex_heap_mid
      ex_utils ex_raw ex_heap0 ex_math_scribbling ex_pool ex_tokenA ex_tokenB
      "ex_amount ex_tokenB 2" ex_heap2]
  have f: "1 \<noteq> fresh ex_heap_mid" "3 < fresh ex_heap2"
    by (simp_all add: ex_heap_mid_def ex_heap2_def)
  note a = T[THEN conjunct1, THEN spec, THEN spec, THEN mp, OF ex_new_StablePool]
  note a1 = a[THEN conjunct2, THEN conjunct2, THEN conjunct1, THEN spec, THEN mp, OF f(1)]
  note a2 = a[THEN conjunct2, THEN conjunct2, THEN conjunct2, THEN spec, THEN mp, OF refl]
  note b = T[THEN conjunct2, THEN conjunct1, THEN spec, THEN spec, THEN mp, OF ex_fromRawPool]
  note c = T[THEN conjunct2, THEN conjunct2, THEN conjunct1, THEN spec, THEN spec, THEN mp,
      OF surjective_pairing]
  note c1 = c[THEN conjunct2, THEN conjunct2, THEN conjunct1, THEN spec, THEN mp, OF f(2)]
  note d = T'[THEN conjunct2, THEN conjunct2, THEN conjunct2, THEN spec, THEN spec, THEN mp,
      OF surjective_pairing]
  note d1 = d[THEN conjunct2, THEN conjunct2, THEN conjunct1, THEN spec, THEN mp, OF f(2)]
  have v: "int_arrays (snd (StablePool_swapGivenIn ex_math_scribbling ex_pool ex_tokenA
       ex_tokenB (ex_amount ex_tokenA (10 * 10 ^ 18)) ex_heap2)) 4 = [0, 0]"
    unfolding StablePool_swapGivenIn_def
    by (simp add: exec amount_defs ex_heap2_def ex_defs ex_math_scribbling_def token_at_def
        isEqual_def Token_def)
  show ?thesis
    by (intro conjI ex_new_StablePool f a1 a2[THEN conjunct2, THEN conjunct1]
        a2[THEN conjunct2, THEN conjunct2, THEN conjunct1] ex_fromRawPool b[THEN conjunct1]
        c[THEN conjunct2, THEN conjunct1] c1 v d[THEN conjunct2, THEN conjunct1] d1)
qed

section \<open>Fixed-point operators on raw and on normalised amounts\<close>

text \<open>
  The fixed-point operators of a scaled amount act on the raw amount. Applying the operator
  to the normalised amount (the raw amount times the scalar \<open>s\<close>) and rounding the result
  back to raw units in the operator's direction gives the same integer.
\<close>

lemma div_scaled:
  fixes x s w :: int
  assumes "0 < s" "0 < w"
  shows "(x * s) div w div s = x div w"
proof -
  have "(x * s) div w div s = (x * s) div (w * s)"
    using assms by (simp add: zdiv_zmult2_eq)
  also have "\<dots> = x div w"
    using assms by (subst div_mult_mult2) simp_all
  finally show ?thesis .
qed

lemma ceil_div_scaled:
  assumes "0 < s" "0 < w"
  shows "ceil_div (ceil_div (x * s) w) s = ceil_div x w"
proof -
  have "- (x * s) = (- x) * s" by simp
  then have "(- (x * s)) div w div s = (- x) div w"
    using div_scaled[OF assms, of "- x"] by simp
  then show ?thesis by (simp add: ceil_div_def)
qed

lemma trunc_div_nonneg: "0 \<le> a \<Longrightarrow> 0 < b \<Longrightarrow> trunc_div a b = a div b"
  by (cases "a = 0") (simp_all add: trunc_div_def)

lemma trunc_div_scaled:
  assumes "0 < s" "0 < w" "0 \<le> x"
  shows "trunc_div (trunc_div (x * s) w) s = trunc_div x w"
proof -
  have n: "0 \<le> x * s" using assms by simp
  then have "0 \<le> (x * s) div w" using assms by (simp add: pos_imp_zdiv_nonneg_iff)
  then have "trunc_div (trunc_div (x * s) w) s = (x * s) div w div s"
    using n assms by (simp add: trunc_div_nonneg)
  with div_scaled[OF assms(1,2), of x] assms show ?thesis
    by (simp add: trunc_div_nonneg)
qed

lemma mulUpFixed_on_normalised:
  assumes "0 < s"
  shows "ceil_div (MathSol_mulUpFixed (a * s) b) s = MathSol_mulUpFixed a b"
proof -
  have e: "a * s * b = a * b * s" by simp
  show ?thesis
    unfolding MathSol_mulUpFixed_def e
    by (rule ceil_div_scaled) (use assms in \<open>simp_all add: WAD_def\<close>)
qed

lemma mulDownFixed_on_normalised:
  assumes "0 < s" "0 \<le> a" "0 \<le> b"
  shows "trunc_div (MathSol_mulDownFixed (a * s) b) s = MathSol_mulDownFixed a b"
proof -
  have e: "a * s * b = a * b * s" by simp
  show ?thesis
    unfolding MathSol_mulDownFixed_def e
    by (rule trunc_div_scaled) (use assms in \<open>simp_all add: WAD_def\<close>)
qed

lemma divUpFixed_on_normalised:
  assumes "0 < s" "0 < b"
  shows "ceil_div (ceil_div (a * s * WAD) b) s = ceil_div (a * WAD) b"
proof -
  have e: "a * s * WAD = a * WAD * s" by simp
  show ?thesis
    unfolding e by (rule ceil_div_scaled) (use assms in simp_all)
qed

lemma divDownFixed_on_normalised:
  assumes "0 < s" "0 < b" "0 \<le> a"
  shows "trunc_div (trunc_div (a * s * WAD) b) s = trunc_div (a * WAD) b"
proof -
  have e: "a * s * WAD = a * WAD * s" by simp
  show ?thesis
    unfolding e by (rule trunc_div_scaled) (use assms in \<open>simp_all add: WAD_def\<close>)
qed

end
